theory Spec2Isabelle
  imports Main "HOL-Library.Product_Lexorder"
begin

section \<open>Python strings\<close>

text \<open>
  A Python \<open>str\<close> is modelled as a \<^typ>\<open>string\<close> holding its UTF-8 bytes.  The functions
  of \<open>logic.py\<close> only use \<open>strip\<close>, \<open>lower\<close>, \<open>split(",")\<close>, equality and
  concatenation.  \<open>strip\<close> and \<open>lower\<close> are modelled on the ASCII range: the ASCII
  white space characters are stripped and the letters \<open>A\<close> to \<open>Z\<close> are lower-cased,
  as Python does.  White space and upper-case letters outside ASCII, which Python would
  strip and lower-case as well, are left as they are: the model is that of the code on
  text whose only characters outside ASCII are neither white space nor cased, such as
  the dashes of the empty-assignment spellings.
\<close>

definition isspace :: "char \<Rightarrow> bool" where
  "isspace c = (c \<in> set [CHR '' '', CHR 0x09, CHR 0x0A, CHR 0x0B, CHR 0x0C, CHR 0x0D,
                           CHR 0x1C, CHR 0x1D, CHR 0x1E, CHR 0x1F])"

definition strip :: "string \<Rightarrow> string" where
  "strip s = rev (dropWhile isspace (rev (dropWhile isspace s)))"

definition lower_char :: "char \<Rightarrow> char" where
  "lower_char c =
     (case map_of (zip ''ABCDEFGHIJKLMNOPQRSTUVWXYZ'' ''abcdefghijklmnopqrstuvwxyz'') c of
        None \<Rightarrow> c
      | Some l \<Rightarrow> l)"

definition lower :: "string \<Rightarrow> string" where
  "lower s = map lower_char s"

text \<open>\<open>s.split(sep)\<close> for a one-character separator: never the empty list.\<close>

fun split_on :: "char \<Rightarrow> string \<Rightarrow> string list" where
  "split_on sep [] = [[]]"
| "split_on sep (c # cs) =
     (if c = sep then [] # split_on sep cs
      else (case split_on sep cs of [] \<Rightarrow> [[c]] | w # ws \<Rightarrow> (c # w) # ws))"

text \<open>How an f-string prints the result of \<open>d.get(k)\<close>: a missing key prints as \<open>None\<close>.\<close>

definition fmt :: "string option \<Rightarrow> string" where
  "fmt v = (case v of None \<Rightarrow> ''None'' | Some s \<Rightarrow> s)"

text \<open>Truth value of an optional string argument (\<open>if skill:\<close>): neither \<open>None\<close> nor empty.\<close>

definition truthy :: "string option \<Rightarrow> bool" where
  "truthy v = (case v of None \<Rightarrow> False | Some s \<Rightarrow> s \<noteq> [])"

text \<open>The string of an optional argument, read only where the argument is true.\<close>

definition arg :: "string option \<Rightarrow> string" where
  "arg v = (case v of None \<Rightarrow> [] | Some s \<Rightarrow> s)"

section \<open>Records and errors\<close>

text \<open>
  A pilot, drone or mission is a \<open>dict\<close> from field names to strings, kept as an
  association list (the first binding of a key counts).  \<open>d.get(k)\<close> is \<open>map_of d k\<close>,
  \<open>d.get(k, "")\<close> is \<open>get_or d k ''''\<close>, and \<open>d[k]\<close> is \<open>index d k\<close>, which raises
  \<open>KeyError\<close> on a missing key.  An empty dict is false in a condition.
\<close>

type_synonym row = "(string \<times> string) list"

datatype error = KeyError string | ParserError string

definition get_or :: "row \<Rightarrow> string \<Rightarrow> string \<Rightarrow> string" where
  "get_or d k dflt = (case map_of d k of None \<Rightarrow> dflt | Some v \<Rightarrow> v)"

definition index :: "row \<Rightarrow> string \<Rightarrow> error + string" where
  "index d k = (case map_of d k of None \<Rightarrow> Inl (KeyError k) | Some v \<Rightarrow> Inr v)"

section \<open>Helpers of logic.py\<close>

definition SKILL_TO_CAPABILITY :: "(string \<times> string) list" where
  "SKILL_TO_CAPABILITY =
     [(''Mapping'', ''RGB''), (''Survey'', ''RGB''), (''Inspection'', ''RGB''),
      (''Thermal'', ''Thermal'')]"

definition split_list :: "string \<Rightarrow> string list" where
  "split_list v = map strip (filter (\<lambda>x. strip x \<noteq> []) (split_on (CHR '','') v))"

text \<open>The en dash U+2013, and the three characters U+00E2 U+20AC U+2013, in UTF-8.\<close>

definition en_dash :: string where
  "en_dash = [CHR 0xE2, CHR 0x80, CHR 0x93]"

definition bad_en_dash :: string where
  "bad_en_dash = [CHR 0xC3, CHR 0xA2, CHR 0xE2, CHR 0x82, CHR 0xAC, CHR 0xE2, CHR 0x80, CHR 0x93]"

definition is_empty_assignment :: "string option \<Rightarrow> bool" where
  "is_empty_assignment v =
     (case v of
        None \<Rightarrow> True
      | Some s \<Rightarrow> strip s \<in> set ['''', ''-'', en_dash, bad_en_dash])"

text \<open>
  \<open>_date\<close> calls \<open>dateutil.parser.parse\<close>, a library outside the repository.  The parser
  is a parameter \<open>pd\<close> of the model: \<open>pd s = None\<close> when the library raises on \<open>s\<close>,
  and otherwise the naive datetime, a value of a linearly ordered type.
\<close>

definition date :: "(string \<Rightarrow> 'd option) \<Rightarrow> string \<Rightarrow> error + 'd" where
  "date pd v = (case pd v of None \<Rightarrow> Inl (ParserError v) | Some d \<Rightarrow> Inr d)"

text \<open>
  \<open>_date(a_start) <= _date(b_end) and _date(b_start) <= _date(a_end)\<close>: the operands are
  parsed from left to right, and the second comparison is not evaluated when the first
  one is false.
\<close>

definition overlaps ::
  "(string \<Rightarrow> 'd::linorder option) \<Rightarrow> string \<Rightarrow> string \<Rightarrow> string \<Rightarrow> string \<Rightarrow> error + bool"
where
  "overlaps pd a_start a_end b_start b_end =
     (case date pd a_start of
        Inl e \<Rightarrow> Inl e
      | Inr sa \<Rightarrow>
          (case date pd b_end of
             Inl e \<Rightarrow> Inl e
           | Inr eb \<Rightarrow>
               if \<not> sa \<le> eb then Inr False
               else
                 (case date pd b_start of
                    Inl e \<Rightarrow> Inl e
                  | Inr sb \<Rightarrow>
                      (case date pd a_end of
                         Inl e \<Rightarrow> Inl e
                       | Inr ea \<Rightarrow> Inr (sb \<le> ea)))))"

definition normalize_text :: "string \<Rightarrow> string" where
  "normalize_text v = strip (lower v)"

subsection \<open>A parser for calendar dates\<close>

text \<open>
  Modelled from the spec: the date parser itself (the \<open>dateutil\<close> library) is missing
  from the sources.  The spec has calendar dates without time of day, and \<open>DATE_FMT\<close> is
  \<open>%Y-%m-%d\<close>; \<open>iso_date\<close> reads exactly that format, as year, month and day, compared
  lexicographically.  It stands for the library only on strings of that format, in the
  examples below.
\<close>

definition digit :: "char \<Rightarrow> nat option" where
  "digit c = map_of (zip ''0123456789'' [0, 1, 2, 3, 4, 5, 6, 7, 8, 9]) c"

fun number :: "nat \<Rightarrow> string \<Rightarrow> nat option" where
  "number acc [] = Some acc"
| "number acc (c # cs) =
     (case digit c of None \<Rightarrow> None | Some d \<Rightarrow> number (10 * acc + d) cs)"

definition days_in_month :: "nat \<Rightarrow> nat \<Rightarrow> nat" where
  "days_in_month y m =
     (if m = 2 then (if y mod 4 = 0 \<and> (y mod 100 \<noteq> 0 \<or> y mod 400 = 0) then 29 else 28)
      else if m \<in> set [4, 6, 9, 11] then 30 else 31)"

definition iso_date :: "string \<Rightarrow> (nat \<times> nat \<times> nat) option" where
  "iso_date s =
     (if length s = 10 \<and> s ! 4 = CHR ''-'' \<and> s ! 7 = CHR ''-'' then
        (case (number 0 (take 4 s), number 0 (take 2 (drop 5 s)), number 0 (drop 8 s)) of
           (Some y, Some m, Some d) \<Rightarrow>
             if 1 \<le> y \<and> 1 \<le> m \<and> m \<le> 12 \<and> 1 \<le> d \<and> d \<le> days_in_month y m
             then Some (y, m, d) else None
         | _ \<Rightarrow> None)
      else None)"

section \<open>Availability filter\<close>



fun filter_drones_loop ::
  "string option \<Rightarrow> string option \<Rightarrow> bool \<Rightarrow> row list \<Rightarrow> row list \<Rightarrow> row list"
where
  "filter_drones_loop capability location available_only [] results = results"
| "filter_drones_loop capability location available_only (d # ds) results =
     (if available_only \<and> normalize_text (get_or d ''status'' '''') \<noteq> ''available'' then
        filter_drones_loop capability location available_only ds results
      else if truthy capability \<and>
              lower (arg capability) \<notin> set (map lower (split_list (get_or d ''capabilities'' ''''))) then
        filter_drones_loop capability location available_only ds results
      else if truthy location \<and>
              normalize_text (get_or d ''location'' '''') \<noteq> lower (arg location) then
        filter_drones_loop capability location available_only ds results
      else filter_drones_loop capability location available_only ds (results @ [d]))"

definition filter_drones ::
  "row list \<Rightarrow> string option \<Rightarrow> string option \<Rightarrow> bool \<Rightarrow> row list"
where
  "filter_drones drones capability location available_only =
     filter_drones_loop capability location available_only drones []"


definition is_available :: "row \<Rightarrow> bool" where
  "is_available r = (normalize_text (get_or r ''status'' '''') = ''available'')"

definition has_tag :: "string \<Rightarrow> string \<Rightarrow> bool" where
  "has_tag tags t = (t \<in> set (map lower (split_list tags)))"


definition drone_matches ::
  "string option \<Rightarrow> string option \<Rightarrow> bool \<Rightarrow> row \<Rightarrow> bool"
where
  "drone_matches capability location available_only d =
     ((available_only \<longrightarrow> is_available d) \<and>
      (truthy capability \<longrightarrow> has_tag (get_or d ''capabilities'' '''') (lower (arg capability))) \<and>
      (truthy location \<longrightarrow> normalize_text (get_or d ''location'' '''') = lower (arg location)))"

section \<open>Assignment recommender\<close>

record AssignmentRecommendation =
  pilot :: "row option"
  drone :: "row option"
  issues :: "string list"

text \<open>
  One pass of the pilot loop of \<open>recommend_assignment\<close>: \<open>Inr True\<close> when the pilot is
  appended to \<open>eligible_pilots\<close>, \<open>Inr False\<close> on a \<open>continue\<close>, \<open>Inl\<close> when
  \<open>assigned["start_date"]\<close>, \<open>assigned["end_date"]\<close> or the date parser raises.
  \<open>if assigned and ...\<close> tests that a mission was found and is not the empty dict.
\<close>

definition pilot_step ::
  "(string \<Rightarrow> 'd::linorder option) \<Rightarrow> row list \<Rightarrow> string \<Rightarrow> string \<Rightarrow> string \<Rightarrow> string \<Rightarrow> string
     \<Rightarrow> row \<Rightarrow> error + bool"
where
  "pilot_step pd missions required_skill required_cert location start end p =
     (if normalize_text (get_or p ''status'' '''') \<noteq> ''available'' then Inr False
      else if normalize_text (get_or p ''location'' '''') \<noteq> normalize_text location then Inr False
      else if normalize_text required_skill
                \<notin> set (map lower (split_list (get_or p ''skills'' ''''))) then Inr False
      else if normalize_text required_cert
                \<notin> set (map lower (split_list (get_or p ''certifications'' ''''))) then Inr False
      else if \<not> is_empty_assignment (map_of p ''current_assignment'') then
        (case find (\<lambda>m. map_of m ''project_id'' = map_of p ''current_assignment'') missions of
           None \<Rightarrow> Inr True
         | Some assigned \<Rightarrow>
             if assigned = [] then Inr True
             else
               (case index assigned ''start_date'' of
                  Inl e \<Rightarrow> Inl e
                | Inr b_start \<Rightarrow>
                    (case index assigned ''end_date'' of
                       Inl e \<Rightarrow> Inl e
                     | Inr b_end \<Rightarrow>
                         (case overlaps pd start end b_start b_end of
                            Inl e \<Rightarrow> Inl e
                          | Inr conflict \<Rightarrow> Inr (\<not> conflict)))))
      else Inr True)"

fun eligible_pilots_loop ::
  "(string \<Rightarrow> 'd::linorder option) \<Rightarrow> row list \<Rightarrow> string \<Rightarrow> string \<Rightarrow> string \<Rightarrow> string \<Rightarrow> string
     \<Rightarrow> row list \<Rightarrow> row list \<Rightarrow> error + row list"
where
  "eligible_pilots_loop pd missions required_skill required_cert location start end []
     eligible_pilots = Inr eligible_pilots"
| "eligible_pilots_loop pd missions required_skill required_cert location start end (p # ps)
     eligible_pilots =
     (case pilot_step pd missions required_skill required_cert location start end p of
        Inl e \<Rightarrow> Inl e
      | Inr keep \<Rightarrow>
          eligible_pilots_loop pd missions required_skill required_cert location start end ps
            (if keep then eligible_pilots @ [p] else eligible_pilots))"

text \<open>\<open>SKILL_TO_CAPABILITY.get(required_skill, "RGB")\<close>: the key is the raw field.\<close>

definition required_capability :: "string \<Rightarrow> string" where
  "required_capability required_skill =
     (case map_of SKILL_TO_CAPABILITY required_skill of None \<Rightarrow> ''RGB'' | Some c \<Rightarrow> c)"

definition unknown_project :: "string \<Rightarrow> AssignmentRecommendation" where
  "unknown_project project_id =
     \<lparr>pilot = None, drone = None, issues = [''Unknown project: '' @ project_id]\<rparr>"

definition no_pilot_issue :: string where
  "no_pilot_issue = ''No available pilot meets skill, cert, and location requirements.''"

definition no_drone_issue :: string where
  "no_drone_issue = ''No available drone matches capability and location requirements.''"

definition first_or_none :: "'a list \<Rightarrow> 'a option" where
  "first_or_none xs = (case xs of [] \<Rightarrow> None | x # _ \<Rightarrow> Some x)"

definition recommend_found ::
  "(string \<Rightarrow> 'd::linorder option) \<Rightarrow> row \<Rightarrow> row list \<Rightarrow> row list \<Rightarrow> row list
     \<Rightarrow> error + AssignmentRecommendation"
where
  "recommend_found pd mission pilots drones missions =
     (let required_skill = get_or mission ''required_skills'' '''';
          required_cert = get_or mission ''required_certs'' '''';
          location = get_or mission ''location'' '''';
          start = get_or mission ''start_date'' '''';
          end = get_or mission ''end_date'' ''''
      in
        (case eligible_pilots_loop pd missions required_skill required_cert location start end
                pilots [] of
           Inl e \<Rightarrow> Inl e
         | Inr eligible_pilots \<Rightarrow>
             (let eligible_drones =
                    filter_drones drones (Some (required_capability required_skill))
                      (Some location) True;
                  issues1 = (if eligible_pilots = [] then [no_pilot_issue] else []);
                  issues2 = (if eligible_drones = [] then issues1 @ [no_drone_issue] else issues1)
              in Inr \<lparr>pilot = first_or_none eligible_pilots,
                       drone = first_or_none eligible_drones,
                       issues = issues2\<rparr>)))"

text \<open>
  \<open>next((m for m in missions if m.get("project_id") == project_id), None)\<close> is the first
  mission with that id; \<open>if not mission\<close> also takes the empty dict for absent.
\<close>

definition recommend_assignment ::
  "(string \<Rightarrow> 'd::linorder option) \<Rightarrow> string \<Rightarrow> row list \<Rightarrow> row list \<Rightarrow> row list
     \<Rightarrow> error + AssignmentRecommendation"
where
  "recommend_assignment pd project_id pilots drones missions =
     (case find (\<lambda>m. map_of m ''project_id'' = Some project_id) missions of
        None \<Rightarrow> Inr (unknown_project project_id)
      | Some mission \<Rightarrow>
          if mission = [] then Inr (unknown_project project_id)
          else recommend_found pd mission pilots drones missions)"

text \<open>
  Eligibility as the specification words it.  The temporal conflict: the pilot holds a
  non-empty assignment, the first mission with that id exists, and its date range
  overlaps the candidate mission's.
\<close>

definition temporal_conflict ::
  "(string \<Rightarrow> 'd::linorder option) \<Rightarrow> row list \<Rightarrow> row \<Rightarrow> row \<Rightarrow> bool"
where
  "temporal_conflict pd missions mission p =
     (\<not> is_empty_assignment (map_of p ''current_assignment'') \<and>
      (case find (\<lambda>m. map_of m ''project_id'' = map_of p ''current_assignment'') missions of
         None \<Rightarrow> False
       | Some assigned \<Rightarrow>
           (case (map_of assigned ''start_date'', map_of assigned ''end_date'') of
              (Some b_start, Some b_end) \<Rightarrow>
                overlaps pd (get_or mission ''start_date'' '''') (get_or mission ''end_date'' '''')
                  b_start b_end = Inr True
            | _ \<Rightarrow> False)))"

definition eligible ::
  "(string \<Rightarrow> 'd::linorder option) \<Rightarrow> row list \<Rightarrow> row \<Rightarrow> row \<Rightarrow> bool"
where
  "eligible pd missions mission p =
     (normalize_text (get_or p ''status'' '''') = ''available'' \<and>
      normalize_text (get_or p ''location'' '''') = normalize_text (get_or mission ''location'' '''') \<and>
      has_tag (get_or p ''skills'' '''') (normalize_text (get_or mission ''required_skills'' '''')) \<and>
      has_tag (get_or p ''certifications'' '''')
        (normalize_text (get_or mission ''required_certs'' '''')) \<and>
      \<not> temporal_conflict pd missions mission p)"

text \<open>Every mission carries a start and an end date that the parser reads.\<close>

definition dated :: "(string \<Rightarrow> 'd option) \<Rightarrow> row \<Rightarrow> bool" where
  "dated pd m =
     (case (map_of m ''start_date'', map_of m ''end_date'') of
        (Some s, Some e) \<Rightarrow> pd s \<noteq> None \<and> pd e \<noteq> None
      | _ \<Rightarrow> False)"

section \<open>Conflict detector\<close>

text \<open>
  \<open>mission_map = {m["project_id"]: m for m in missions}\<close>: a later mission replaces an
  earlier one with the same id, and a mission without the key raises \<open>KeyError\<close>.
\<close>

fun build_mission_map :: "row list \<Rightarrow> (string \<rightharpoonup> row) \<Rightarrow> error + (string \<rightharpoonup> row)" where
  "build_mission_map [] mission_map = Inr mission_map"
| "build_mission_map (m # ms) mission_map =
     (case index m ''project_id'' of
        Inl e \<Rightarrow> Inl e
      | Inr k \<Rightarrow> build_mission_map ms (mission_map(k \<mapsto> m)))"

text \<open>\<open>d.get(key)\<close> on a dict with string keys, for a key that may be \<open>None\<close>.\<close>

definition map_get :: "(string \<rightharpoonup> row) \<Rightarrow> string option \<Rightarrow> row option" where
  "map_get mp k = (case k of None \<Rightarrow> None | Some a \<Rightarrow> mp a)"

text \<open>
  Pilot assignment conflicts: the body of the first loop, then the loop.
  \<open>if not mission\<close> holds for an absent mission and for the empty dict.
\<close>

definition pilot_conflicts_step :: "(string \<rightharpoonup> row) \<Rightarrow> row \<Rightarrow> string list \<Rightarrow> string list" where
  "pilot_conflicts_step mission_map p conflicts =
     (let assignment = map_of p ''current_assignment'' in
      if \<not> is_empty_assignment assignment then
        (let unknown = conflicts @ [''Pilot '' @ fmt (map_of p ''name'')
                                      @ '' assigned to unknown mission '' @ fmt assignment @ ''.'']
         in
         case map_get mission_map assignment of
           None \<Rightarrow> unknown
         | Some mission \<Rightarrow>
           if mission = [] then unknown
           else
           (let c1 = (if normalize_text (get_or mission ''required_skills'' '''')
                           \<notin> set (map lower (split_list (get_or p ''skills'' '''')))
                      then conflicts @ [''Pilot '' @ fmt (map_of p ''name'')
                                          @ '' lacks required skill for '' @ fmt assignment @ ''.'']
                      else conflicts);
                c2 = (if normalize_text (get_or mission ''required_certs'' '''')
                           \<notin> set (map lower (split_list (get_or p ''certifications'' '''')))
                      then c1 @ [''Pilot '' @ fmt (map_of p ''name'')
                                   @ '' lacks required certs for '' @ fmt assignment @ ''.'']
                      else c1)
            in if normalize_text (get_or p ''location'' '''')
                    \<noteq> normalize_text (get_or mission ''location'' '''')
               then c2 @ [''Pilot '' @ fmt (map_of p ''name'')
                            @ '' location mismatch for '' @ fmt assignment @ ''.'']
               else c2))
      else conflicts)"

fun pilot_conflicts_loop :: "(string \<rightharpoonup> row) \<Rightarrow> row list \<Rightarrow> string list \<Rightarrow> string list" where
  "pilot_conflicts_loop mission_map [] conflicts = conflicts"
| "pilot_conflicts_loop mission_map (p # ps) conflicts =
     pilot_conflicts_loop mission_map ps (pilot_conflicts_step mission_map p conflicts)"

text \<open>Drone assignment conflicts.\<close>

definition drone_conflicts_step :: "(string \<rightharpoonup> row) \<Rightarrow> row \<Rightarrow> string list \<Rightarrow> string list" where
  "drone_conflicts_step mission_map d conflicts =
     (let assignment = map_of d ''current_assignment'' in
      if \<not> is_empty_assignment assignment then
        (let unknown = conflicts @ [''Drone '' @ fmt (map_of d ''drone_id'')
                                      @ '' assigned to unknown mission '' @ fmt assignment @ ''.'']
         in
         case map_get mission_map assignment of
           None \<Rightarrow> unknown
         | Some mission \<Rightarrow>
           if mission = [] then unknown
           else
           (let c1 = (if normalize_text (get_or d ''status'' '''') = ''maintenance''
                      then conflicts @ [''Drone '' @ fmt (map_of d ''drone_id'')
                                          @ '' is in maintenance but assigned to ''
                                          @ fmt assignment @ ''.'']
                      else conflicts);
                c2 = (if normalize_text (get_or d ''location'' '''')
                           \<noteq> normalize_text (get_or mission ''location'' '''')
                      then c1 @ [''Drone '' @ fmt (map_of d ''drone_id'')
                                   @ '' location mismatch for '' @ fmt assignment @ ''.'']
                      else c1);
                required_skill = get_or mission ''required_skills'' '''';
                required_cap = lower (required_capability required_skill)
            in if required_cap \<notin> set (map lower (split_list (get_or d ''capabilities'' '''')))
               then c2 @ [''Drone '' @ fmt (map_of d ''drone_id'')
                            @ '' lacks capability for '' @ fmt assignment @ ''.'']
               else c2))
      else conflicts)"

fun drone_conflicts_loop :: "(string \<rightharpoonup> row) \<Rightarrow> row list \<Rightarrow> string list \<Rightarrow> string list" where
  "drone_conflicts_loop mission_map [] conflicts = conflicts"
| "drone_conflicts_loop mission_map (d # ds) conflicts =
     drone_conflicts_loop mission_map ds (drone_conflicts_step mission_map d conflicts)"

text \<open>
  Overlapping pilot assignments.  The inner loop over \<open>missions\<close> stops at the first
  mission \<open>m2\<close> with another id whose dates overlap those of \<open>m1\<close>; the subscripts
  \<open>m2["project_id"]\<close>, \<open>m1["project_id"]\<close> and the four dates are read in the source's
  order, each raising \<open>KeyError\<close> when missing.
\<close>

fun overlap_scan ::
  "(string \<Rightarrow> 'd::linorder option) \<Rightarrow> row \<Rightarrow> string option \<Rightarrow> row \<Rightarrow> row list \<Rightarrow> string list
     \<Rightarrow> error + string list"
where
  "overlap_scan pd p assignment m1 [] conflicts = Inr conflicts"
| "overlap_scan pd p assignment m1 (m2 # ms) conflicts =
     (case index m2 ''project_id'' of
        Inl e \<Rightarrow> Inl e
      | Inr id2 \<Rightarrow>
     (case index m1 ''project_id'' of
        Inl e \<Rightarrow> Inl e
      | Inr id1 \<Rightarrow>
          if id2 = id1 then overlap_scan pd p assignment m1 ms conflicts
          else
     (case index m1 ''start_date'' of
        Inl e \<Rightarrow> Inl e
      | Inr a_start \<Rightarrow>
     (case index m1 ''end_date'' of
        Inl e \<Rightarrow> Inl e
      | Inr a_end \<Rightarrow>
     (case index m2 ''start_date'' of
        Inl e \<Rightarrow> Inl e
      | Inr b_start \<Rightarrow>
     (case index m2 ''end_date'' of
        Inl e \<Rightarrow> Inl e
      | Inr b_end \<Rightarrow>
     (case overlaps pd a_start a_end b_start b_end of
        Inl e \<Rightarrow> Inl e
      | Inr hit \<Rightarrow>
          if hit then
            Inr (if assignment = Some id1
                 then conflicts @ [''Pilot '' @ fmt (map_of p ''name'') @ '' assigned to ''
                                     @ fmt assignment @ '' overlaps with '' @ id2 @ ''.'']
                 else conflicts)
          else overlap_scan pd p assignment m1 ms conflicts)))))))"

definition overlap_step ::
  "(string \<Rightarrow> 'd::linorder option) \<Rightarrow> (string \<rightharpoonup> row) \<Rightarrow> row list \<Rightarrow> row \<Rightarrow> string list
     \<Rightarrow> error + string list"
where
  "overlap_step pd mission_map missions p conflicts =
     (let assignment = map_of p ''current_assignment'' in
      if is_empty_assignment assignment then Inr conflicts
      else
        (case map_get mission_map assignment of
           None \<Rightarrow> Inr conflicts
         | Some m1 \<Rightarrow>
             if m1 = [] then Inr conflicts
             else overlap_scan pd p assignment m1 missions conflicts))"

fun overlap_loop ::
  "(string \<Rightarrow> 'd::linorder option) \<Rightarrow> (string \<rightharpoonup> row) \<Rightarrow> row list \<Rightarrow> row list \<Rightarrow> string list
     \<Rightarrow> error + string list"
where
  "overlap_loop pd mission_map missions [] conflicts = Inr conflicts"
| "overlap_loop pd mission_map missions (p # ps) conflicts =
     (case overlap_step pd mission_map missions p conflicts of
        Inl e \<Rightarrow> Inl e
      | Inr conflicts' \<Rightarrow> overlap_loop pd mission_map missions ps conflicts')"

text \<open>
  Pilot and drone of one assignment in different locations.
  \<open>drone_by_assignment\<close> keeps, for every non-empty \<open>current_assignment\<close> string, the last
  drone that carries it.
\<close>

fun build_drone_by_assignment :: "row list \<Rightarrow> (string \<rightharpoonup> row) \<Rightarrow> (string \<rightharpoonup> row)" where
  "build_drone_by_assignment [] drone_by_assignment = drone_by_assignment"
| "build_drone_by_assignment (d # ds) drone_by_assignment =
     (case map_of d ''current_assignment'' of
        None \<Rightarrow> build_drone_by_assignment ds drone_by_assignment
      | Some a \<Rightarrow>
          if a \<noteq> [] then build_drone_by_assignment ds (drone_by_assignment(a \<mapsto> d))
          else build_drone_by_assignment ds drone_by_assignment)"

definition colocation_step :: "(string \<rightharpoonup> row) \<Rightarrow> row \<Rightarrow> string list \<Rightarrow> string list" where
  "colocation_step drone_by_assignment p conflicts =
     (let assignment = map_of p ''current_assignment'' in
      if \<not> is_empty_assignment assignment \<and> map_get drone_by_assignment assignment \<noteq> None then
        (case map_get drone_by_assignment assignment of
           None \<Rightarrow> conflicts
         | Some d \<Rightarrow>
             if normalize_text (get_or p ''location'' '''') \<noteq> normalize_text (get_or d ''location'' '''')
             then conflicts @ [''Pilot '' @ fmt (map_of p ''name'') @ '' and drone ''
                                 @ fmt (map_of d ''drone_id'')
                                 @ '' are in different locations for '' @ fmt assignment @ ''.'']
             else conflicts)
      else conflicts)"

fun colocation_loop :: "(string \<rightharpoonup> row) \<Rightarrow> row list \<Rightarrow> string list \<Rightarrow> string list" where
  "colocation_loop drone_by_assignment [] conflicts = conflicts"
| "colocation_loop drone_by_assignment (p # ps) conflicts =
     colocation_loop drone_by_assignment ps (colocation_step drone_by_assignment p conflicts)"

definition detect_conflicts ::
  "(string \<Rightarrow> 'd::linorder option) \<Rightarrow> row list \<Rightarrow> row list \<Rightarrow> row list \<Rightarrow> error + string list"
where
  "detect_conflicts pd pilots drones missions =
     (case build_mission_map missions Map.empty of
        Inl e \<Rightarrow> Inl e
      | Inr mission_map \<Rightarrow>
          (let conflicts1 = pilot_conflicts_loop mission_map pilots [];
               conflicts2 = drone_conflicts_loop mission_map drones conflicts1
           in
             (case overlap_loop pd mission_map missions pilots conflicts2 of
                Inl e \<Rightarrow> Inl e
              | Inr conflicts3 \<Rightarrow>
                  Inr (colocation_loop (build_drone_by_assignment drones Map.empty) pilots
                         conflicts3))))"

text \<open>
  The spellings of an empty assignment: the field is missing, or it is, with surrounding
  white space removed, the empty string, a hyphen, an en dash or the mis-encoded en dash.
\<close>

definition unassigned :: "row \<Rightarrow> bool" where
  "unassigned r =
     (case map_of r ''current_assignment'' of
        None \<Rightarrow> True
      | Some s \<Rightarrow> strip s = '''' \<or> strip s = ''-'' \<or> strip s = en_dash \<or> strip s = bad_en_dash)"

section \<open>Urgent reassignment planner\<close>

text \<open>\<open>if candidate\<close>, \<open>rec.pilot and rec.drone\<close>: \<open>None\<close> and the empty dict are false.\<close>

definition falsy :: "row option \<Rightarrow> bool" where
  "falsy r = (case r of None \<Rightarrow> True | Some m \<Rightarrow> m = [])"

definition has_priority :: "string list \<Rightarrow> row \<Rightarrow> bool" where
  "has_priority names m = (normalize_text (get_or m ''priority'' '''') \<in> set names)"

text \<open>
  The search for a pilot of a lower priority mission.  The inner loop reads
  \<open>lm["project_id"]\<close> once for every pilot it compares, and stops at the first match;
  the outer loop stops as soon as \<open>candidate\<close> is true.
\<close>

fun candidate_scan :: "row \<Rightarrow> row list \<Rightarrow> row option \<Rightarrow> error + row option" where
  "candidate_scan lm [] candidate = Inr candidate"
| "candidate_scan lm (p # ps) candidate =
     (case index lm ''project_id'' of
        Inl e \<Rightarrow> Inl e
      | Inr pid \<Rightarrow>
          if map_of p ''current_assignment'' = Some pid then Inr (Some p)
          else candidate_scan lm ps candidate)"

fun candidate_loop :: "row list \<Rightarrow> row list \<Rightarrow> row option \<Rightarrow> error + row option" where
  "candidate_loop [] pilots candidate = Inr candidate"
| "candidate_loop (lm # lms) pilots candidate =
     (case candidate_scan lm pilots candidate of
        Inl e \<Rightarrow> Inl e
      | Inr candidate' \<Rightarrow>
          if \<not> falsy candidate' then Inr candidate'
          else candidate_loop lms pilots candidate')"

fun plan_loop ::
  "(string \<Rightarrow> 'd::linorder option) \<Rightarrow> row list \<Rightarrow> row list \<Rightarrow> row list \<Rightarrow> row list \<Rightarrow> string list
     \<Rightarrow> error + string list"
where
  "plan_loop pd missions pilots drones [] recommendations = Inr recommendations"
| "plan_loop pd missions pilots drones (m # urgent) recommendations =
     (case index m ''project_id'' of
        Inl e \<Rightarrow> Inl e
      | Inr pid \<Rightarrow>
     (case recommend_assignment pd pid pilots drones missions of
        Inl e \<Rightarrow> Inl e
      | Inr r \<Rightarrow>
          if \<not> falsy (pilot r) \<and> \<not> falsy (drone r) \<and> issues r = [] then
            plan_loop pd missions pilots drones urgent recommendations
          else
     (case candidate_loop (filter (has_priority [''standard'', ''low'']) missions) pilots None of
        Inl e \<Rightarrow> Inl e
      | Inr candidate \<Rightarrow>
          plan_loop pd missions pilots drones urgent
            (recommendations @
              [case candidate of
                 None \<Rightarrow> ''No reassignable pilots found for urgent mission '' @ pid @ ''.''
               | Some c \<Rightarrow>
                   if c = [] then ''No reassignable pilots found for urgent mission '' @ pid @ ''.''
                   else ''Consider reassigning pilot '' @ fmt (map_of c ''name'') @ '' from ''
                          @ fmt (map_of c ''current_assignment'') @ '' to urgent mission ''
                          @ pid @ ''.'']))))"

definition urgent_reassignment_plan ::
  "(string \<Rightarrow> 'd::linorder option) \<Rightarrow> row list \<Rightarrow> row list \<Rightarrow> row list \<Rightarrow> error + string list"
where
  "urgent_reassignment_plan pd missions pilots drones =
     (let urgent = filter (has_priority [''urgent'', ''high'']) missions in
      if urgent = [] then Inr [''No urgent or high-priority missions found.'']
      else plan_loop pd missions pilots drones urgent [])"

text \<open>
  The planner as the specification words it.  The reassignable pilot is the first pair,
  missions of priority standard or low first in listing order and the pilots in listing
  order within each mission, of a mission and a pilot whose \<open>current_assignment\<close> is
  the mission's project id.  A mission is coverable when the recommender returns a
  pilot and a drone and no issue for it.
\<close>

definition first_reassignable :: "row list \<Rightarrow> row list \<Rightarrow> row option" where
  "first_reassignable missions pilots =
     map_option snd
       (find (\<lambda>(lm, p). map_of lm ''project_id'' \<noteq> None \<and>
                         map_of p ''current_assignment'' = map_of lm ''project_id'')
          (List.product (filter (has_priority [''standard'', ''low'']) missions) pilots))"

definition coverable ::
  "(string \<Rightarrow> 'd::linorder option) \<Rightarrow> row list \<Rightarrow> row list \<Rightarrow> row list \<Rightarrow> row \<Rightarrow> bool"
where
  "coverable pd missions pilots drones m =
     (case recommend_assignment pd (get_or m ''project_id'' '''') pilots drones missions of
        Inl e \<Rightarrow> False
      | Inr r \<Rightarrow> pilot r \<noteq> None \<and> drone r \<noteq> None \<and> issues r = [])"

definition plan_line :: "row option \<Rightarrow> row \<Rightarrow> string" where
  "plan_line candidate m =
     (case candidate of
        None \<Rightarrow>
          ''No reassignable pilots found for urgent mission '' @ get_or m ''project_id'' '''' @ ''.''
      | Some c \<Rightarrow>
          ''Consider reassigning pilot '' @ fmt (map_of c ''name'') @ '' from ''
            @ fmt (map_of c ''current_assignment'') @ '' to urgent mission ''
            @ get_or m ''project_id'' '''' @ ''.'')"

section \<open>Conflict detector on a store\<close>

text \<open>
  In Python the three arguments of \<open>detect_conflicts\<close> are references to list objects,
  whose items are references to dict objects, all of them mutable.  The store holds the
  dict objects by address and the three lists as lists of addresses.  An effect takes the
  store and returns a result, or the exception raised, with the store it leaves.
\<close>

type_synonym addr = nat

record store =
  heap :: "addr \<Rightarrow> row"
  pilots_ref :: "addr list"
  drones_ref :: "addr list"
  missions_ref :: "addr list"

type_synonym 'a eff = "store \<Rightarrow> (error + 'a) \<times> store"

definition ret :: "'a \<Rightarrow> 'a eff" where
  "ret x = (\<lambda>s. (Inr x, s))"

definition lift :: "error + 'a \<Rightarrow> 'a eff" where
  "lift r = (\<lambda>s. (r, s))"

definition bind_eff :: "'a eff \<Rightarrow> ('a \<Rightarrow> 'b eff) \<Rightarrow> 'b eff" where
  "bind_eff m f = (\<lambda>s. case m s of (Inl e, s') \<Rightarrow> (Inl e, s') | (Inr x, s') \<Rightarrow> f x s')"

text \<open>
  The operations on a dict object: \<open>d.get(k)\<close>, \<open>d.get(k, dflt)\<close>, \<open>d[k]\<close>, the truth
  value of \<open>d\<close>, and the assignment \<open>d[k] = v\<close>.  The command layer uses the assignment
  (\<open>p["current_assignment"] = proj\<close> in \<open>agent.py\<close>); the body of \<open>detect_conflicts\<close>
  has none.
\<close>

definition dict_get :: "addr \<Rightarrow> string \<Rightarrow> string option eff" where
  "dict_get a k = (\<lambda>s. (Inr (map_of (heap s a) k), s))"

definition dict_get_or :: "addr \<Rightarrow> string \<Rightarrow> string \<Rightarrow> string eff" where
  "dict_get_or a k dflt = (\<lambda>s. (Inr (get_or (heap s a) k dflt), s))"

definition dict_index :: "addr \<Rightarrow> string \<Rightarrow> string eff" where
  "dict_index a k = (\<lambda>s. (index (heap s a) k, s))"

definition dict_is_empty :: "addr \<Rightarrow> bool eff" where
  "dict_is_empty a = (\<lambda>s. (Inr (heap s a = []), s))"

definition dict_set :: "addr \<Rightarrow> string \<Rightarrow> string \<Rightarrow> unit eff" where
  "dict_set a k v =
     (\<lambda>s. (Inr (), s\<lparr>heap := (heap s)(a := (k, v) # filter (\<lambda>kv. fst kv \<noteq> k) (heap s a))\<rparr>))"

text \<open>
  \<open>for x in xs: body\<close> over a list object \<open>xs\<close> of the store.  The iterator keeps an
  index: at every pass it reads the list as it is then, and stops when the index is
  beyond its end.  The indices run below the length that the list has when the loop
  starts, so that the loop is total; a body that makes its own list longer is cut
  there.  The body returns the accumulated value and whether it left by \<open>break\<close>;
  an exception ends the loop with the store as the body left it.
\<close>

fun for_items ::
  "(store \<Rightarrow> addr list) \<Rightarrow> nat list \<Rightarrow> (addr \<Rightarrow> 'a \<Rightarrow> store \<Rightarrow> (error + 'a \<times> bool) \<times> store) \<Rightarrow> 'a
     \<Rightarrow> store \<Rightarrow> (error + 'a) \<times> store"
where
  "for_items coll [] body acc s = (Inr acc, s)"
| "for_items coll (i # is) body acc s =
     (if i < length (coll s) then
        (case body (coll s ! i) acc s of
           (Inl e, s') \<Rightarrow> (Inl e, s')
         | (Inr (acc', stop), s') \<Rightarrow>
             if stop then (Inr acc', s') else for_items coll is body acc' s')
      else (Inr acc, s))"

definition for_each ::
  "(store \<Rightarrow> addr list) \<Rightarrow> (addr \<Rightarrow> 'a \<Rightarrow> ('a \<times> bool) eff) \<Rightarrow> 'a \<Rightarrow> 'a eff"
where
  "for_each coll body acc = (\<lambda>s. for_items coll [0..<length (coll s)] body acc s)"

text \<open>A loop body that ends without \<open>break\<close>.\<close>

definition go_on :: "'a eff \<Rightarrow> ('a \<times> bool) eff" where
  "go_on m = bind_eff m (\<lambda>x. ret (x, False))"

text \<open>
  The dicts that \<open>detect_conflicts\<close> builds (\<open>mission_map\<close>, \<open>drone_by_assignment\<close>) are
  its own: they map strings to references into the store.
\<close>

definition ref_get :: "(string \<rightharpoonup> addr) \<Rightarrow> string option \<Rightarrow> addr option" where
  "ref_get mp k = (case k of None \<Rightarrow> None | Some a \<Rightarrow> mp a)"

text \<open>\<open>if not mission\<close>: no reference, or a reference to the empty dict.\<close>

definition truthy_ref :: "addr option \<Rightarrow> addr option eff" where
  "truthy_ref r =
     (case r of
        None \<Rightarrow> ret None
      | Some a \<Rightarrow> bind_eff (dict_is_empty a) (\<lambda>e. ret (if e then None else Some a)))"

text \<open>
  The body of \<open>detect_conflicts\<close>, statement by statement.  Every field that a branch
  uses is read from the store at the head of the branch.
\<close>

definition mission_map_eff :: "addr \<Rightarrow> (string \<rightharpoonup> addr) \<Rightarrow> (string \<rightharpoonup> addr) eff" where
  "mission_map_eff m mission_map =
     bind_eff (dict_index m ''project_id'') (\<lambda>k. ret (mission_map(k \<mapsto> m)))"

definition pilot_conflicts_eff :: "(string \<rightharpoonup> addr) \<Rightarrow> addr \<Rightarrow> string list \<Rightarrow> string list eff" where
  "pilot_conflicts_eff mission_map p conflicts =
     bind_eff (dict_get p ''current_assignment'') (\<lambda>assignment.
     if \<not> is_empty_assignment assignment then
       bind_eff (dict_get p ''name'') (\<lambda>name.
       bind_eff (truthy_ref (ref_get mission_map assignment)) (\<lambda>mission.
       case mission of
         None \<Rightarrow>
           ret (conflicts @ [''Pilot '' @ fmt name @ '' assigned to unknown mission ''
                              @ fmt assignment @ ''.''])
       | Some m \<Rightarrow>
           bind_eff (dict_get_or m ''required_skills'' '''') (\<lambda>required_skills.
           bind_eff (dict_get_or p ''skills'' '''') (\<lambda>skills.
           bind_eff (dict_get_or m ''required_certs'' '''') (\<lambda>required_certs.
           bind_eff (dict_get_or p ''certifications'' '''') (\<lambda>certifications.
           bind_eff (dict_get_or p ''location'' '''') (\<lambda>location.
           bind_eff (dict_get_or m ''location'' '''') (\<lambda>mission_location.
           ret (let c1 = (if normalize_text required_skills \<notin> set (map lower (split_list skills))
                          then conflicts @ [''Pilot '' @ fmt name
                                              @ '' lacks required skill for '' @ fmt assignment @ ''.'']
                          else conflicts);
                    c2 = (if normalize_text required_certs
                               \<notin> set (map lower (split_list certifications))
                          then c1 @ [''Pilot '' @ fmt name
                                       @ '' lacks required certs for '' @ fmt assignment @ ''.'']
                          else c1)
                in if normalize_text location \<noteq> normalize_text mission_location
                   then c2 @ [''Pilot '' @ fmt name
                                @ '' location mismatch for '' @ fmt assignment @ ''.'']
                   else c2)))))))))
     else ret conflicts)"

definition drone_conflicts_eff :: "(string \<rightharpoonup> addr) \<Rightarrow> addr \<Rightarrow> string list \<Rightarrow> string list eff" where
  "drone_conflicts_eff mission_map d conflicts =
     bind_eff (dict_get d ''current_assignment'') (\<lambda>assignment.
     if \<not> is_empty_assignment assignment then
       bind_eff (dict_get d ''drone_id'') (\<lambda>drone_id.
       bind_eff (truthy_ref (ref_get mission_map assignment)) (\<lambda>mission.
       case mission of
         None \<Rightarrow>
           ret (conflicts @ [''Drone '' @ fmt drone_id @ '' assigned to unknown mission ''
                              @ fmt assignment @ ''.''])
       | Some m \<Rightarrow>
           bind_eff (dict_get_or d ''status'' '''') (\<lambda>status.
           bind_eff (dict_get_or d ''location'' '''') (\<lambda>location.
           bind_eff (dict_get_or m ''location'' '''') (\<lambda>mission_location.
           bind_eff (dict_get_or m ''required_skills'' '''') (\<lambda>required_skill.
           bind_eff (dict_get_or d ''capabilities'' '''') (\<lambda>capabilities.
           ret (let c1 = (if normalize_text status = ''maintenance''
                          then conflicts @ [''Drone '' @ fmt drone_id
                                              @ '' is in maintenance but assigned to ''
                                              @ fmt assignment @ ''.'']
                          else conflicts);
                    c2 = (if normalize_text location \<noteq> normalize_text mission_location
                          then c1 @ [''Drone '' @ fmt drone_id
                                       @ '' location mismatch for '' @ fmt assignment @ ''.'']
                          else c1);
                    required_cap = lower (required_capability required_skill)
                in if required_cap \<notin> set (map lower (split_list capabilities))
                   then c2 @ [''Drone '' @ fmt drone_id
                                @ '' lacks capability for '' @ fmt assignment @ ''.'']
                   else c2))))))))
     else ret conflicts)"

definition overlap_check_eff ::
  "(string \<Rightarrow> 'd::linorder option) \<Rightarrow> addr \<Rightarrow> string option \<Rightarrow> addr \<Rightarrow> addr \<Rightarrow> string list
     \<Rightarrow> (string list \<times> bool) eff"
where
  "overlap_check_eff pd p assignment m1 m2 conflicts =
     bind_eff (dict_index m2 ''project_id'') (\<lambda>id2.
     bind_eff (dict_index m1 ''project_id'') (\<lambda>id1.
     if id2 = id1 then ret (conflicts, False)
     else
       bind_eff (dict_index m1 ''start_date'') (\<lambda>a_start.
       bind_eff (dict_index m1 ''end_date'') (\<lambda>a_end.
       bind_eff (dict_index m2 ''start_date'') (\<lambda>b_start.
       bind_eff (dict_index m2 ''end_date'') (\<lambda>b_end.
       bind_eff (lift (overlaps pd a_start a_end b_start b_end)) (\<lambda>hit.
       if hit then
         (if assignment = Some id1 then
            bind_eff (dict_get p ''name'') (\<lambda>name.
            ret (conflicts @ [''Pilot '' @ fmt name @ '' assigned to '' @ fmt assignment
                                @ '' overlaps with '' @ id2 @ ''.''], True))
          else ret (conflicts, True))
       else ret (conflicts, False))))))))"

definition overlap_eff ::
  "(string \<Rightarrow> 'd::linorder option) \<Rightarrow> (string \<rightharpoonup> addr) \<Rightarrow> addr \<Rightarrow> string list \<Rightarrow> string list eff"
where
  "overlap_eff pd mission_map p conflicts =
     bind_eff (dict_get p ''current_assignment'') (\<lambda>assignment.
     if is_empty_assignment assignment then ret conflicts
     else
       bind_eff (truthy_ref (ref_get mission_map assignment)) (\<lambda>mission.
       case mission of
         None \<Rightarrow> ret conflicts
       | Some m1 \<Rightarrow> for_each missions_ref (overlap_check_eff pd p assignment m1) conflicts))"

definition drone_map_eff :: "addr \<Rightarrow> (string \<rightharpoonup> addr) \<Rightarrow> (string \<rightharpoonup> addr) eff" where
  "drone_map_eff d drone_by_assignment =
     bind_eff (dict_get d ''current_assignment'') (\<lambda>assignment.
     ret (case assignment of
            None \<Rightarrow> drone_by_assignment
          | Some a \<Rightarrow> if a \<noteq> [] then drone_by_assignment(a \<mapsto> d) else drone_by_assignment))"

definition colocation_eff :: "(string \<rightharpoonup> addr) \<Rightarrow> addr \<Rightarrow> string list \<Rightarrow> string list eff" where
  "colocation_eff drone_by_assignment p conflicts =
     bind_eff (dict_get p ''current_assignment'') (\<lambda>assignment.
     if \<not> is_empty_assignment assignment \<and> ref_get drone_by_assignment assignment \<noteq> None then
       (case ref_get drone_by_assignment assignment of
          None \<Rightarrow> ret conflicts
        | Some d \<Rightarrow>
            bind_eff (dict_get_or p ''location'' '''') (\<lambda>location.
            bind_eff (dict_get_or d ''location'' '''') (\<lambda>drone_location.
            bind_eff (dict_get p ''name'') (\<lambda>name.
            bind_eff (dict_get d ''drone_id'') (\<lambda>drone_id.
            ret (if normalize_text location \<noteq> normalize_text drone_location
                 then conflicts @ [''Pilot '' @ fmt name @ '' and drone '' @ fmt drone_id
                                     @ '' are in different locations for '' @ fmt assignment
                                     @ ''.'']
                 else conflicts))))))
     else ret conflicts)"

definition detect_conflicts_eff :: "(string \<Rightarrow> 'd::linorder option) \<Rightarrow> string list eff" where
  "detect_conflicts_eff pd =
     bind_eff (for_each missions_ref (\<lambda>m mm. go_on (mission_map_eff m mm)) Map.empty)
       (\<lambda>mission_map.
     bind_eff (for_each pilots_ref (\<lambda>p c. go_on (pilot_conflicts_eff mission_map p c)) [])
       (\<lambda>conflicts1.
     bind_eff (for_each drones_ref (\<lambda>d c. go_on (drone_conflicts_eff mission_map d c)) conflicts1)
       (\<lambda>conflicts2.
     bind_eff (for_each pilots_ref (\<lambda>p c. go_on (overlap_eff pd mission_map p c)) conflicts2)
       (\<lambda>conflicts3.
     bind_eff (for_each drones_ref (\<lambda>d m. go_on (drone_map_eff d m)) Map.empty)
       (\<lambda>drone_by_assignment.
     for_each pilots_ref (\<lambda>p c. go_on (colocation_eff drone_by_assignment p c)) conflicts3)))))"

text \<open>
  The records that a list of references stands for, and the mapping to records that a
  mapping to references stands for.
\<close>

definition rows :: "store \<Rightarrow> addr list \<Rightarrow> row list" where
  "rows s refs = map (heap s) refs"

definition view :: "store \<Rightarrow> (string \<rightharpoonup> addr) \<Rightarrow> (string \<rightharpoonup> row)" where
  "view s mp = (\<lambda>k. map_option (heap s) (mp k))"

text \<open>A loop with \<open>break\<close> over a list of records, and one pass of the inner overlap loop.\<close>

fun fold_rows :: "(row \<Rightarrow> 'b \<Rightarrow> error + 'b \<times> bool) \<Rightarrow> row list \<Rightarrow> 'b \<Rightarrow> error + 'b" where
  "fold_rows g [] acc = Inr acc"
| "fold_rows g (r # rs) acc =
     (case g r acc of
        Inl e \<Rightarrow> Inl e
      | Inr (acc', stop) \<Rightarrow> if stop then Inr acc' else fold_rows g rs acc')"

definition overlap_check ::
  "(string \<Rightarrow> 'd::linorder option) \<Rightarrow> row \<Rightarrow> string option \<Rightarrow> row \<Rightarrow> row \<Rightarrow> string list
     \<Rightarrow> error + string list \<times> bool"
where
  "overlap_check pd p assignment m1 m2 conflicts =
     (case index m2 ''project_id'' of
        Inl e \<Rightarrow> Inl e
      | Inr id2 \<Rightarrow>
     (case index m1 ''project_id'' of
        Inl e \<Rightarrow> Inl e
      | Inr id1 \<Rightarrow>
          if id2 = id1 then Inr (conflicts, False)
          else
     (case index m1 ''start_date'' of
        Inl e \<Rightarrow> Inl e
      | Inr a_start \<Rightarrow>
     (case index m1 ''end_date'' of
        Inl e \<Rightarrow> Inl e
      | Inr a_end \<Rightarrow>
     (case index m2 ''start_date'' of
        Inl e \<Rightarrow> Inl e
      | Inr b_start \<Rightarrow>
     (case index m2 ''end_date'' of
        Inl e \<Rightarrow> Inl e
      | Inr b_end \<Rightarrow>
     (case overlaps pd a_start a_end b_start b_end of
        Inl e \<Rightarrow> Inl e
      | Inr hit \<Rightarrow>
          if hit then
            Inr (if assignment = Some id1
                 then conflicts @ [''Pilot '' @ fmt (map_of p ''name'') @ '' assigned to ''
                                     @ fmt assignment @ '' overlaps with '' @ id2 @ ''.'']
                 else conflicts, True)
          else Inr (conflicts, False))))))))"

section \<open>Example data\<close>

text \<open>A small fleet, used to evaluate the functions on concrete input.\<close>

definition demo_missions :: "row list" where
  "demo_missions =
     [[(''project_id'', ''PRJ001''), (''location'', ''Mumbai''), (''required_skills'', ''Mapping''),
       (''required_certs'', ''DGCA''), (''start_date'', ''2024-01-01''),
       (''end_date'', ''2024-01-10''), (''priority'', ''Urgent'')],
      [(''project_id'', ''PRJ002''), (''location'', ''Mumbai''), (''required_skills'', ''Survey''),
       (''required_certs'', ''DGCA''), (''start_date'', ''2024-01-05''),
       (''end_date'', ''2024-01-15''), (''priority'', ''Standard'')],
      [(''project_id'', ''PRJ003''), (''location'', ''Delhi''), (''required_skills'', ''Thermal''),
       (''required_certs'', ''DGCA''), (''start_date'', ''2024-01-11''),
       (''end_date'', ''2024-01-20''), (''priority'', ''Low'')]]"

definition demo_pilots :: "row list" where
  "demo_pilots =
     [[(''name'', ''Arjun''), (''skills'', ''Mapping, Survey''), (''certifications'', ''DGCA''),
       (''location'', ''Mumbai''), (''status'', ''Available''), (''current_assignment'', ''PRJ002'')],
      [(''name'', ''Neha''), (''skills'', ''Thermal,mapping''), (''certifications'', ''Night Ops, dgca''),
       (''location'', ''mumbai ''), (''status'', ''AVAILABLE''), (''current_assignment'', ''PRJ003'')],
      [(''name'', ''Rohit''), (''skills'', ''Mapping''), (''certifications'', ''DGCA''),
       (''location'', ''Mumbai''), (''status'', ''Available''), (''current_assignment'', ''-'')],
      [(''name'', ''Sneha''), (''skills'', ''Mapping''), (''certifications'', ''DGCA''),
       (''location'', ''Mumbai''), (''status'', ''On Leave''), (''current_assignment'', '''')]]"

definition demo_drones :: "row list" where
  "demo_drones =
     [[(''drone_id'', ''D001''), (''capabilities'', ''RGB''), (''status'', ''Maintenance''),
       (''location'', ''Mumbai''), (''current_assignment'', ''PRJ002'')],
      [(''drone_id'', ''D002''), (''capabilities'', ''Thermal, rgb''), (''status'', ''Available''),
       (''location'', ''Mumbai''), (''current_assignment'', ''-'')],
      [(''drone_id'', ''D003''), (''capabilities'', ''RGB''), (''status'', ''Available''),
       (''location'', ''Mumbai''), (''current_assignment'', '''')]]"

text \<open>A fleet in which a pilot and the drone of the same mission are in different places.\<close>

definition demo_drones_apart :: "row list" where
  "demo_drones_apart =
     [[(''drone_id'', ''D001''), (''capabilities'', ''Thermal''), (''status'', ''Maintenance''),
       (''location'', ''Pune''), (''current_assignment'', ''PRJ002'')],
      [(''drone_id'', ''D002''), (''capabilities'', ''RGB''), (''status'', ''Available''),
       (''location'', ''Mumbai''), (''current_assignment'', ''PRJ404'')]]"

definition demo_store :: store where
  "demo_store =
     \<lparr>heap = (\<lambda>a. (demo_missions @ demo_pilots @ demo_drones_apart @ [[]]) ! min a 9),
      pilots_ref = [3, 4, 5, 6], drones_ref = [7, 8], missions_ref = [0, 1, 2]\<rparr>"

section \<open>Properties\<close>

subsection \<open>Comparison up to case\<close>







subsection \<open>Date ranges\<close>

lemma overlaps_parsed:
  assumes "pd a_start = Some sa" and "pd a_end = Some ea"
    and "pd b_start = Some sb" and "pd b_end = Some eb"
  shows "overlaps pd a_start a_end b_start b_end = Inr (sa \<le> eb \<and> sb \<le> ea)"
  using assms by (simp add: overlaps_def date_def)

lemma iso_date_examples:
  "iso_date ''2024-01-01'' = Some (2024, 1, 1)"
  "iso_date ''2024-01-10'' = Some (2024, 1, 10)"
  "iso_date ''2024-01-05'' = Some (2024, 1, 5)"
  "iso_date ''2024-01-15'' = Some (2024, 1, 15)"
  "iso_date ''2024-01-11'' = Some (2024, 1, 11)"
  "iso_date ''2024-01-20'' = Some (2024, 1, 20)"
  by (simp_all add: iso_date_def digit_def days_in_month_def)

text \<open>
  C4.  Whenever the four dates of two ranges parse, \<open>_overlaps\<close> returns the truth value
  of \<open>startA \<le> endB \<and> startB \<le> endA\<close>, both ends inclusive.  With calendar dates,
  2024-01-01..2024-01-10 overlaps 2024-01-05..2024-01-15 and does not overlap
  2024-01-11..2024-01-20.
\<close>

theorem overlaps_inclusive:
  "(\<forall>sa ea sb eb.
      pd a_start = Some sa \<and> pd a_end = Some ea \<and> pd b_start = Some sb \<and> pd b_end = Some eb
      \<longrightarrow> overlaps pd a_start a_end b_start b_end = Inr (sa \<le> eb \<and> sb \<le> ea)) \<and>
   overlaps iso_date ''2024-01-01'' ''2024-01-10'' ''2024-01-05'' ''2024-01-15'' = Inr True \<and>
   overlaps iso_date ''2024-01-01'' ''2024-01-10'' ''2024-01-11'' ''2024-01-20'' = Inr False"
proof (intro conjI allI impI)
  fix sa ea sb eb
  assume "pd a_start = Some sa \<and> pd a_end = Some ea \<and> pd b_start = Some sb \<and> pd b_end = Some eb"
  then show "overlaps pd a_start a_end b_start b_end = Inr (sa \<le> eb \<and> sb \<le> ea)"
    by (simp add: overlaps_parsed)
next
  show "overlaps iso_date ''2024-01-01'' ''2024-01-10'' ''2024-01-05'' ''2024-01-15'' = Inr True"
    by (simp add: overlaps_parsed [where pd = iso_date] iso_date_examples)
next
  show "overlaps iso_date ''2024-01-01'' ''2024-01-10'' ''2024-01-11'' ''2024-01-20'' = Inr False"
    by (simp add: overlaps_parsed [where pd = iso_date] iso_date_examples)
qed

theorem overlaps_inclusive_witness:
  "iso_date ''2024-03-01'' = Some (2024, 3, 1) \<and> iso_date ''2024-03-10'' = Some (2024, 3, 10) \<and>
   iso_date ''2024-03-20'' = Some (2024, 3, 20) \<and>
   overlaps iso_date ''2024-03-01'' ''2024-03-10'' ''2024-03-10'' ''2024-03-20'' = Inr True"
proof -
  have p: "iso_date ''2024-03-01'' = Some (2024, 3, 1) \<and> iso_date ''2024-03-10'' = Some (2024, 3, 10) \<and>
      iso_date ''2024-03-10'' = Some (2024, 3, 10) \<and> iso_date ''2024-03-20'' = Some (2024, 3, 20)"
    by (simp add: iso_date_def digit_def days_in_month_def)
  from overlaps_inclusive [of iso_date "''2024-03-01''" "''2024-03-10''" "''2024-03-10''" "''2024-03-20''"] p
  have "overlaps iso_date ''2024-03-01'' ''2024-03-10'' ''2024-03-10'' ''2024-03-20''
      = Inr ((2024, 3, 1) \<le> (2024::nat, 3::nat, 20::nat) \<and> (2024, 3, 10) \<le> (2024::nat, 3::nat, 10::nat))"
    by blast
  with p show ?thesis by simp
qed

subsection \<open>Availability filter\<close>


lemma filter_drones_loop_filter:
  "filter_drones_loop capability location available_only ds results =
     results @ filter (drone_matches capability location available_only) ds"
  by (induction ds arbitrary: results)
     (auto simp add: drone_matches_def is_available_def has_tag_def)


lemma filter_drones_filter:
  "filter_drones drones capability location available_only =
     filter (drone_matches capability location available_only) drones"
  by (simp add: filter_drones_def filter_drones_loop_filter)



subsection \<open>Assignment recommender\<close>

lemma find_first_or_none: "first_or_none (filter P xs) = find P xs"
  by (induction xs) (simp_all add: first_or_none_def)

lemma pilot_step_eligible:
  "pilot_step pd missions (get_or mission ''required_skills'' '''')
     (get_or mission ''required_certs'' '''') (get_or mission ''location'' '''')
     (get_or mission ''start_date'' '''') (get_or mission ''end_date'' '''') p = Inr keep
   \<Longrightarrow> keep = eligible pd missions mission p"
  by (auto simp add: pilot_step_def eligible_def temporal_conflict_def has_tag_def index_def
        split: if_splits option.splits sum.splits)

lemma eligible_pilots_loop_filter:
  "eligible_pilots_loop pd missions (get_or mission ''required_skills'' '''')
     (get_or mission ''required_certs'' '''') (get_or mission ''location'' '''')
     (get_or mission ''start_date'' '''') (get_or mission ''end_date'' '''') ps acc = Inr elig
   \<Longrightarrow> elig = acc @ filter (eligible pd missions mission) ps"
proof (induction ps arbitrary: acc)
  case Nil
  then show ?case by simp
next
  case (Cons p ps)
  from Cons.prems obtain keep where
    step: "pilot_step pd missions (get_or mission ''required_skills'' '''')
      (get_or mission ''required_certs'' '''') (get_or mission ''location'' '''')
      (get_or mission ''start_date'' '''') (get_or mission ''end_date'' '''') p = Inr keep"
    and rest: "eligible_pilots_loop pd missions (get_or mission ''required_skills'' '''')
      (get_or mission ''required_certs'' '''') (get_or mission ''location'' '''')
      (get_or mission ''start_date'' '''') (get_or mission ''end_date'' '''') ps
      (if keep then acc @ [p] else acc) = Inr elig"
    by (auto split: sum.splits)
  from pilot_step_eligible [OF step] have k: "keep = eligible pd missions mission p" .
  from Cons.IH [OF rest] show ?case
    by (simp add: k)
qed

text \<open>With dated missions no step of the pilot loop raises.\<close>

lemma find_in_set: "find P xs = Some x \<Longrightarrow> x \<in> set xs \<and> P x"
  by (induction xs) (auto split: if_splits)

lemma overlaps_total:
  "pd a_start \<noteq> None \<Longrightarrow> pd a_end \<noteq> None \<Longrightarrow> pd b_start \<noteq> None \<Longrightarrow> pd b_end \<noteq> None
   \<Longrightarrow> \<exists>b. overlaps pd a_start a_end b_start b_end = Inr b"
  by (auto simp add: overlaps_def date_def)

lemma pilot_step_total:
  assumes "\<forall>m \<in> set missions. dated pd m" and "pd start \<noteq> None" and "pd end \<noteq> None"
  shows "\<exists>keep. pilot_step pd missions required_skill required_cert location start end p = Inr keep"
proof (cases "find (\<lambda>m. map_of m ''project_id'' = map_of p ''current_assignment'') missions")
  case None
  then show ?thesis by (auto simp add: pilot_step_def)
next
  case (Some assigned)
  then have "dated pd assigned"
    using assms(1) find_in_set by fastforce
  then obtain s e where se: "map_of assigned ''start_date'' = Some s"
      "map_of assigned ''end_date'' = Some e" "pd s \<noteq> None" "pd e \<noteq> None"
    by (auto simp add: dated_def split: option.splits)
  from overlaps_total [OF assms(2) assms(3) se(3) se(4)]
  obtain b where "overlaps pd start end s e = Inr b" by blast
  with Some se show ?thesis
    by (auto simp add: pilot_step_def index_def)
qed

lemma eligible_pilots_loop_total:
  assumes "\<forall>m \<in> set missions. dated pd m" and "pd start \<noteq> None" and "pd end \<noteq> None"
  shows "\<exists>elig. eligible_pilots_loop pd missions required_skill required_cert location start end
            ps acc = Inr elig"
proof (induction ps arbitrary: acc)
  case Nil
  then show ?case by simp
next
  case (Cons p ps)
  from pilot_step_total [OF assms]
  obtain keep where
    "pilot_step pd missions required_skill required_cert location start end p = Inr keep"
    by blast
  with Cons.IH show ?case by simp
qed

lemma dated_fields:
  "dated pd m \<Longrightarrow> pd (get_or m ''start_date'' '''') \<noteq> None \<and> pd (get_or m ''end_date'' '''') \<noteq> None"
  by (auto simp add: dated_def get_or_def split: option.splits)

lemmas string_simps = normalize_text_def strip_def lower_def lower_char_def isspace_def
  split_list_def get_or_def index_def fmt_def arg_def truthy_def has_tag_def

lemma found_nonempty:
  "find (\<lambda>m. map_of m ''project_id'' = Some project_id) missions = Some mission \<Longrightarrow> mission \<noteq> []"
  by (auto dest: find_in_set)


lemma demo_find:
  "find (\<lambda>m. map_of m ''project_id'' = Some ''PRJ001'') demo_missions = Some (hd demo_missions)"
  by (simp add: demo_missions_def)

lemma demo_dated: "\<forall>m \<in> set demo_missions. dated iso_date m"
  by (simp add: demo_missions_def dated_def iso_date_def digit_def days_in_month_def)

lemma demo_eligible:
  "filter (eligible iso_date demo_missions (hd demo_missions)) demo_pilots =
     [demo_pilots ! 1, demo_pilots ! 2]"
  by (simp add: demo_missions_def demo_pilots_def eligible_def temporal_conflict_def
        is_empty_assignment_def en_dash_def bad_en_dash_def overlaps_def date_def
        iso_date_def digit_def days_in_month_def string_simps)



lemma recommend_found_result:
  assumes "recommend_found pd mission pilots drones missions = Inr r"
  shows "pilot r = find (eligible pd missions mission) pilots"
    and "drone r = find (drone_matches (Some (required_capability (get_or mission ''required_skills'' '''')))
                     (Some (get_or mission ''location'' '''')) True) drones"
    and "issues r =
           (if pilot r = None then [no_pilot_issue] else []) @
           (if drone r = None then [no_drone_issue] else [])"
proof -
  from assms obtain elig where
    run: "eligible_pilots_loop pd missions (get_or mission ''required_skills'' '''')
      (get_or mission ''required_certs'' '''') (get_or mission ''location'' '''')
      (get_or mission ''start_date'' '''') (get_or mission ''end_date'' '''') pilots [] = Inr elig"
    and r: "r = \<lparr>pilot = first_or_none elig,
        drone = first_or_none (filter_drones drones
          (Some (required_capability (get_or mission ''required_skills'' '''')))
          (Some (get_or mission ''location'' '''')) True),
        issues =
          (if filter_drones drones
                (Some (required_capability (get_or mission ''required_skills'' '''')))
                (Some (get_or mission ''location'' '''')) True = []
           then (if elig = [] then [no_pilot_issue] else []) @ [no_drone_issue]
           else (if elig = [] then [no_pilot_issue] else []))\<rparr>"
    by (auto simp add: recommend_found_def Let_def split: sum.splits)
  from eligible_pilots_loop_filter [OF run]
  have e: "elig = filter (eligible pd missions mission) pilots" by simp
  show "pilot r = find (eligible pd missions mission) pilots"
    by (simp add: r e find_first_or_none)
  show "drone r = find (drone_matches (Some (required_capability (get_or mission ''required_skills'' '''')))
                     (Some (get_or mission ''location'' '''')) True) drones"
    by (simp add: r filter_drones_filter find_first_or_none)
  show "issues r =
           (if pilot r = None then [no_pilot_issue] else []) @
           (if drone r = None then [no_drone_issue] else [])"
    by (simp add: r first_or_none_def split: list.splits)
qed

lemma recommend_found_total:
  assumes "\<forall>m \<in> set missions. dated pd m" and "mission \<in> set missions"
  shows "\<exists>r. recommend_found pd mission pilots drones missions = Inr r"
proof -
  from assms have "dated pd mission" by blast
  from dated_fields [OF this] eligible_pilots_loop_total [OF assms(1)]
  obtain elig where
    "eligible_pilots_loop pd missions (get_or mission ''required_skills'' '''')
      (get_or mission ''required_certs'' '''') (get_or mission ''location'' '''')
      (get_or mission ''start_date'' '''') (get_or mission ''end_date'' '''') pilots [] = Inr elig"
    by blast
  then show ?thesis
    by (simp add: recommend_found_def Let_def)
qed

lemma recommend_assignment_found:
  "find (\<lambda>m. map_of m ''project_id'' = Some project_id) missions = Some mission \<Longrightarrow>
   recommend_assignment pd project_id pilots drones missions =
     recommend_found pd mission pilots drones missions"
  by (frule found_nonempty) (simp add: recommend_assignment_def)

text \<open>
  C2.  When the mission is found, the pilot returned is the first eligible pilot of the
  input list, or none, and the drone returned is the first drone of the input list
  that passes the availability filter for the capability derived from the required
  skill and for the mission's location.  The result is a function of the inputs alone,
  and it exists when every mission carries dates that parse.
\<close>

theorem recommend_first_match:
  assumes "find (\<lambda>m. map_of m ''project_id'' = Some project_id) missions = Some mission"
  shows "(\<forall>r. recommend_assignment pd project_id pilots drones missions = Inr r \<longrightarrow>
            pilot r = find (eligible pd missions mission) pilots \<and>
            drone r =
              find (drone_matches (Some (required_capability (get_or mission ''required_skills'' '''')))
                      (Some (get_or mission ''location'' '''')) True) drones) \<and>
         ((\<forall>m \<in> set missions. dated pd m) \<longrightarrow>
            (\<exists>r. recommend_assignment pd project_id pilots drones missions = Inr r))"
proof (intro conjI allI impI)
  fix r
  assume "recommend_assignment pd project_id pilots drones missions = Inr r"
  then have f: "recommend_found pd mission pilots drones missions = Inr r"
    by (simp add: recommend_assignment_found [OF assms])
  from recommend_found_result(1) [OF f]
  show "pilot r = find (eligible pd missions mission) pilots" .
  from recommend_found_result(2) [OF f]
  show "drone r =
      find (drone_matches (Some (required_capability (get_or mission ''required_skills'' '''')))
              (Some (get_or mission ''location'' '''')) True) drones" .
next
  assume d: "\<forall>m \<in> set missions. dated pd m"
  from assms have "mission \<in> set missions" by (auto dest: find_in_set)
  from recommend_found_total [OF d this]
  show "\<exists>r. recommend_assignment pd project_id pilots drones missions = Inr r"
    by (simp add: recommend_assignment_found [OF assms])
qed

lemma demo_drone_first:
  "find (drone_matches (Some (required_capability (get_or (hd demo_missions) ''required_skills'' '''')))
           (Some (get_or (hd demo_missions) ''location'' '''')) True) demo_drones =
     Some (demo_drones ! 1)"
  by (simp add: demo_missions_def demo_drones_def drone_matches_def is_available_def
        required_capability_def SKILL_TO_CAPABILITY_def string_simps)

lemma demo_pilot_first:
  "find (eligible iso_date demo_missions (hd demo_missions)) demo_pilots = Some (demo_pilots ! 1)"
proof -
  have "first_or_none (filter (eligible iso_date demo_missions (hd demo_missions)) demo_pilots) =
      Some (demo_pilots ! 1)"
    by (simp add: demo_eligible first_or_none_def)
  then show ?thesis by (simp add: find_first_or_none)
qed

theorem recommend_first_match_witness:
  "find (\<lambda>m. map_of m ''project_id'' = Some ''PRJ001'') demo_missions = Some (hd demo_missions) \<and>
   list_all (dated iso_date) demo_missions \<and>
   (\<exists>r. recommend_assignment iso_date ''PRJ001'' demo_pilots demo_drones demo_missions = Inr r \<and>
        pilot r = Some (demo_pilots ! 1) \<and> drone r = Some (demo_drones ! 1))"
proof -
  from recommend_first_match [OF demo_find, of iso_date demo_pilots demo_drones] demo_dated
  obtain r where
    "recommend_assignment iso_date ''PRJ001'' demo_pilots demo_drones demo_missions = Inr r"
    and "pilot r = find (eligible iso_date demo_missions (hd demo_missions)) demo_pilots"
    and "drone r =
      find (drone_matches (Some (required_capability (get_or (hd demo_missions) ''required_skills'' '''')))
              (Some (get_or (hd demo_missions) ''location'' '''')) True) demo_drones"
    by blast
  with demo_find demo_dated demo_pilot_first demo_drone_first show ?thesis
    by (simp add: list_all_iff)
qed

text \<open>
  C6.  For a project id that no mission carries, \<open>recommend_assignment\<close> returns no
  pilot, no drone and the single issue \<open>Unknown project: <id>\<close>.
\<close>

theorem recommend_unknown_project:
  assumes "\<forall>m \<in> set missions. map_of m ''project_id'' \<noteq> Some project_id"
  shows "recommend_assignment pd project_id pilots drones missions =
           Inr \<lparr>pilot = None, drone = None, issues = [''Unknown project: '' @ project_id]\<rparr>"
proof -
  from assms have "find (\<lambda>m. map_of m ''project_id'' = Some project_id) missions = None"
    by (simp add: find_None_iff)
  then show ?thesis
    by (simp add: recommend_assignment_def unknown_project_def)
qed

theorem recommend_unknown_project_witness:
  "list_all (\<lambda>m. map_of m ''project_id'' \<noteq> Some ''PRJ999'') demo_missions \<and>
   recommend_assignment iso_date ''PRJ999'' demo_pilots demo_drones demo_missions =
     Inr \<lparr>pilot = None, drone = None, issues = [''Unknown project: PRJ999'']\<rparr>"
proof -
  have a: "\<forall>m \<in> set demo_missions. map_of m ''project_id'' \<noteq> Some ''PRJ999''"
    by (simp add: demo_missions_def)
  from recommend_unknown_project [OF a, of iso_date demo_pilots demo_drones] a
  show ?thesis by (simp add: list_all_iff)
qed

text \<open>
  C10.  When the mission is found and \<open>recommend_assignment\<close> returns, no pilot is
  returned iff the pilot issue is among the issues, no drone is returned iff the drone
  issue is among them, and the issues are empty iff both a pilot and a drone are
  returned.
\<close>

theorem recommend_issues_iff:
  assumes "find (\<lambda>m. map_of m ''project_id'' = Some project_id) missions = Some mission"
    and "recommend_assignment pd project_id pilots drones missions = Inr r"
  shows "(pilot r = None \<longleftrightarrow>
            ''No available pilot meets skill, cert, and location requirements.'' \<in> set (issues r)) \<and>
         (drone r = None \<longleftrightarrow>
            ''No available drone matches capability and location requirements.'' \<in> set (issues r)) \<and>
         (issues r = [] \<longleftrightarrow> pilot r \<noteq> None \<and> drone r \<noteq> None)"
proof -
  from assms have f: "recommend_found pd mission pilots drones missions = Inr r"
    by (simp add: recommend_assignment_found)
  have ne: "no_pilot_issue \<noteq> no_drone_issue"
    by (simp add: no_pilot_issue_def no_drone_issue_def)
  from recommend_found_result(3) [OF f] ne show ?thesis
    unfolding no_pilot_issue_def [symmetric] no_drone_issue_def [symmetric]
    by (auto split: if_splits)
qed

lemma demo_recommend:
  "\<exists>r. recommend_assignment iso_date ''PRJ001'' demo_pilots demo_drones demo_missions = Inr r \<and>
        pilot r = Some (demo_pilots ! 1) \<and> drone r = Some (demo_drones ! 1)"
proof -
  from demo_find have "hd demo_missions \<in> set demo_missions" by (auto dest: find_in_set)
  from recommend_found_total [OF demo_dated this]
  obtain r where r: "recommend_found iso_date (hd demo_missions) demo_pilots demo_drones demo_missions = Inr r"
    by blast
  from recommend_found_result(1) [OF r] recommend_found_result(2) [OF r] r
  show ?thesis
    by (simp add: recommend_assignment_found [OF demo_find] demo_pilot_first demo_drone_first)
qed

theorem recommend_issues_iff_witness:
  "find (\<lambda>m. map_of m ''project_id'' = Some ''PRJ001'') demo_missions = Some (hd demo_missions) \<and>
   (\<exists>r. recommend_assignment iso_date ''PRJ001'' demo_pilots demo_drones demo_missions = Inr r \<and>
        pilot r \<noteq> None \<and> drone r \<noteq> None \<and> issues r = [] \<and>
        ''No available pilot meets skill, cert, and location requirements.'' \<notin> set (issues r) \<and>
        ''No available drone matches capability and location requirements.'' \<notin> set (issues r))"
proof -
  from demo_recommend obtain r where
    r: "recommend_assignment iso_date ''PRJ001'' demo_pilots demo_drones demo_missions = Inr r"
    and p: "pilot r = Some (demo_pilots ! 1)" and d: "drone r = Some (demo_drones ! 1)"
    by blast
  from recommend_issues_iff [OF demo_find r] p d have "issues r = []" by simp
  with r p d demo_find show ?thesis by auto
qed

subsection \<open>Conflict detector\<close>

lemma pilot_conflicts_step_append:
  "pilot_conflicts_step mm p acc = acc @ pilot_conflicts_step mm p []"
  by (simp add: pilot_conflicts_step_def Let_def split: option.splits)

lemma pilot_conflicts_loop_concat:
  "pilot_conflicts_loop mm ps acc = acc @ concat (map (\<lambda>p. pilot_conflicts_step mm p []) ps)"
proof (induction ps arbitrary: acc)
  case Nil
  then show ?case by simp
next
  case (Cons p ps)
  show ?case
    by (simp add: Cons.IH [of "pilot_conflicts_step mm p acc"])
       (simp add: pilot_conflicts_step_append [of mm p acc])
qed

lemma drone_conflicts_step_append:
  "drone_conflicts_step mm d acc = acc @ drone_conflicts_step mm d []"
  by (simp add: drone_conflicts_step_def Let_def split: option.splits)

lemma drone_conflicts_loop_concat:
  "drone_conflicts_loop mm ds acc = acc @ concat (map (\<lambda>d. drone_conflicts_step mm d []) ds)"
proof (induction ds arbitrary: acc)
  case Nil
  then show ?case by simp
next
  case (Cons d ds)
  show ?case
    by (simp add: Cons.IH [of "drone_conflicts_step mm d acc"])
       (simp add: drone_conflicts_step_append [of mm d acc])
qed

lemma colocation_step_append:
  "colocation_step dba p acc = acc @ colocation_step dba p []"
  by (simp add: colocation_step_def Let_def split: option.splits)

lemma colocation_loop_concat:
  "colocation_loop dba ps acc = acc @ concat (map (\<lambda>p. colocation_step dba p []) ps)"
proof (induction ps arbitrary: acc)
  case Nil
  then show ?case by simp
next
  case (Cons p ps)
  show ?case
    by (simp add: Cons.IH [of "colocation_step dba p acc"])
       (simp add: colocation_step_append [of dba p acc])
qed

lemma overlap_scan_append:
  "overlap_scan pd p a m1 ms acc = map_sum id ((@) acc) (overlap_scan pd p a m1 ms [])"
  by (induction ms) (auto split: sum.splits)

lemma overlap_step_append:
  "overlap_step pd mm missions p acc = map_sum id ((@) acc) (overlap_step pd mm missions p [])"
  by (simp add: overlap_step_def Let_def overlap_scan_append [of pd p _ _ missions acc]
        split: option.splits)

lemma overlap_loop_concat:
  "overlap_loop pd mm missions ps acc = Inr out \<Longrightarrow>
   \<exists>parts. map (\<lambda>p. overlap_step pd mm missions p []) ps = map Inr parts \<and>
           out = acc @ concat parts"
proof (induction ps arbitrary: acc)
  case Nil
  then show ?case by simp
next
  case (Cons p ps)
  from Cons.prems obtain c where
    step: "overlap_step pd mm missions p acc = Inr c"
    and rest: "overlap_loop pd mm missions ps c = Inr out"
    by (auto split: sum.splits)
  from step obtain new where new: "overlap_step pd mm missions p [] = Inr new" and c: "c = acc @ new"
    by (cases "overlap_step pd mm missions p []")
       (simp_all add: overlap_step_append [of pd mm missions p acc])
  from Cons.IH [OF rest] obtain parts where
    parts: "map (\<lambda>p. overlap_step pd mm missions p []) ps = map Inr parts" "out = c @ concat parts"
    by blast
  have "map (\<lambda>p. overlap_step pd mm missions p []) (p # ps) = map Inr (new # parts)"
    by (simp add: new parts(1))
  moreover have "out = acc @ concat (new # parts)"
    by (simp add: parts(2) c)
  ultimately show ?case by blast
qed

text \<open>The detector on a store: the effects that read.\<close>

lemmas eff_simps = ret_def lift_def bind_eff_def dict_get_def dict_get_or_def dict_index_def
  dict_is_empty_def go_on_def

lemma view_empty: "view s Map.empty = Map.empty"
  by (simp add: view_def)

lemma view_upd: "view s (mp(k \<mapsto> a)) = (view s mp)(k \<mapsto> heap s a)"
  by (auto simp add: view_def)

lemma map_get_view: "map_get (view s mp) k = map_option (heap s) (ref_get mp k)"
  by (simp add: map_get_def ref_get_def view_def split: option.splits)

lemma truthy_ref_reads:
  "truthy_ref r s = (Inr (case r of None \<Rightarrow> None | Some a \<Rightarrow> if heap s a = [] then None else Some a), s)"
  by (simp add: truthy_ref_def eff_simps split: option.splits)

text \<open>
  A loop whose body leaves the store as it is leaves the store as it is, and computes what
  the loop over the records computes.  The accumulated value may hold references, which
  \<open>\<alpha>\<close> reads.
\<close>

lemma for_items_reads:
  assumes frame: "\<And>a acc. snd (body a acc s) = s"
    and val: "\<And>a acc. map_sum id (map_prod \<alpha> id) (fst (body a acc s)) = g (heap s a) (\<alpha> acc)"
    and range: "\<forall>i \<in> set is. i < length (coll s)"
  shows "snd (for_items coll is body acc s) = s \<and>
         map_sum id \<alpha> (fst (for_items coll is body acc s)) =
           fold_rows g (map (\<lambda>i. heap s (coll s ! i)) is) (\<alpha> acc)"
  using range
proof (induction "is" arbitrary: acc)
  case Nil
  show ?case by simp
next
  case (Cons i "is")
  obtain r s' where b: "body (coll s ! i) acc s = (r, s')"
    by (cases "body (coll s ! i) acc s")
  from frame [of "coll s ! i" acc] b have s': "s' = s"
    by simp
  from val [of "coll s ! i" acc] b
  have g: "g (heap s (coll s ! i)) (\<alpha> acc) = map_sum id (map_prod \<alpha> id) r"
    by simp
  from Cons.prems have i: "i < length (coll s)" and rest: "\<forall>i \<in> set is. i < length (coll s)"
    by simp_all
  show ?case
  proof (cases r)
    case (Inl e)
    with b s' g i show ?thesis by simp
  next
    case (Inr x)
    obtain acc' stop where x: "x = (acc', stop)"
      by (cases x)
    from Cons.IH [OF rest, of acc'] Inr x b s' g i show ?thesis
      by simp
  qed
qed

lemma for_each_reads:
  assumes frame: "\<And>a acc. snd (body a acc s) = s"
    and val: "\<And>a acc. map_sum id (map_prod \<alpha> id) (fst (body a acc s)) = g (heap s a) (\<alpha> acc)"
  shows "snd (for_each coll body acc s) = s \<and>
         map_sum id \<alpha> (fst (for_each coll body acc s)) = fold_rows g (rows s (coll s)) (\<alpha> acc)"
proof -
  have "map (\<lambda>i. heap s (coll s ! i)) [0..<length (coll s)] =
      map (heap s) (map ((!) (coll s)) [0..<length (coll s)])"
    by simp
  then have m: "map (\<lambda>i. heap s (coll s ! i)) [0..<length (coll s)] = rows s (coll s)"
    unfolding map_nth rows_def .
  have "snd (for_items coll [0..<length (coll s)] body acc s) = s \<and>
        map_sum id \<alpha> (fst (for_items coll [0..<length (coll s)] body acc s)) =
          fold_rows g (map (\<lambda>i. heap s (coll s ! i)) [0..<length (coll s)]) (\<alpha> acc)"
  proof (rule for_items_reads)
    show "snd (body a acc s) = s" for a acc
      by (rule frame)
    show "map_sum id (map_prod \<alpha> id) (fst (body a acc s)) = g (heap s a) (\<alpha> acc)" for a acc
      by (rule val)
    show "\<forall>i \<in> set [0..<length (coll s)]. i < length (coll s)"
      by simp
  qed
  with m show ?thesis
    by (simp add: for_each_def)
qed

lemma for_each_reads_list:
  assumes "\<And>a acc. body a acc s = (g (heap s a) acc, s)"
  shows "for_each coll body acc s = (fold_rows g (rows s (coll s)) acc, s)"
proof -
  have "snd (for_each coll body acc s) = s \<and>
        map_sum id id (fst (for_each coll body acc s)) = fold_rows g (rows s (coll s)) (id acc)"
    by (rule for_each_reads) (simp_all add: assms sum.map_id0 prod.map_id0)
  then show ?thesis
    by (simp add: sum.map_id0 prod_eq_iff)
qed

text \<open>The loops of the detector over records are loops with \<open>break\<close>.\<close>

lemma build_mission_map_fold:
  "build_mission_map ms mission_map =
     fold_rows (\<lambda>m mm. case index m ''project_id'' of Inl e \<Rightarrow> Inl e | Inr k \<Rightarrow> Inr (mm(k \<mapsto> m), False)) ms mission_map"
  by (induction ms arbitrary: mission_map) (auto split: sum.splits)

lemma pilot_conflicts_loop_fold:
  "Inr (pilot_conflicts_loop mission_map ps conflicts) =
     fold_rows (\<lambda>p c. Inr (pilot_conflicts_step mission_map p c, False)) ps conflicts"
  by (induction ps arbitrary: conflicts) simp_all

lemma drone_conflicts_loop_fold:
  "Inr (drone_conflicts_loop mission_map ds conflicts) =
     fold_rows (\<lambda>d c. Inr (drone_conflicts_step mission_map d c, False)) ds conflicts"
  by (induction ds arbitrary: conflicts) simp_all

lemma colocation_loop_fold:
  "Inr (colocation_loop drone_by_assignment ps conflicts) =
     fold_rows (\<lambda>p c. Inr (colocation_step drone_by_assignment p c, False)) ps conflicts"
  by (induction ps arbitrary: conflicts) simp_all

lemma build_drone_by_assignment_fold:
  "Inr (build_drone_by_assignment ds drone_by_assignment) =
     fold_rows (\<lambda>d m. Inr (case map_of d ''current_assignment'' of
                              None \<Rightarrow> m
                            | Some a \<Rightarrow> if a \<noteq> [] then m(a \<mapsto> d) else m, False)) ds drone_by_assignment"
  by (induction ds arbitrary: drone_by_assignment) (auto split: option.splits)

lemma overlap_scan_fold:
  "overlap_scan pd p assignment m1 ms conflicts =
     fold_rows (overlap_check pd p assignment m1) ms conflicts"
  by (induction ms) (auto simp add: overlap_check_def split: sum.splits)

lemma overlap_loop_fold:
  "overlap_loop pd mission_map missions ps conflicts =
     fold_rows (\<lambda>p c. map_sum id (\<lambda>c'. (c', False)) (overlap_step pd mission_map missions p c))
       ps conflicts"
  by (induction ps arbitrary: conflicts) (auto split: sum.splits)

text \<open>Every statement of the body reads the store, and none writes it.\<close>

lemma mission_map_eff_reads:
  "mission_map_eff m mission_map s =
     (case index (heap s m) ''project_id'' of
        Inl e \<Rightarrow> Inl e
      | Inr k \<Rightarrow> Inr (mission_map(k \<mapsto> m)), s)"
  by (simp add: mission_map_eff_def eff_simps split: sum.splits)

lemma pilot_conflicts_eff_reads:
  "pilot_conflicts_eff mission_map p conflicts s =
     (Inr (pilot_conflicts_step (view s mission_map) (heap s p) conflicts), s)"
  by (auto simp add: pilot_conflicts_eff_def pilot_conflicts_step_def truthy_ref_reads map_get_view
      eff_simps Let_def split: option.splits)

lemma drone_conflicts_eff_reads:
  "drone_conflicts_eff mission_map d conflicts s =
     (Inr (drone_conflicts_step (view s mission_map) (heap s d) conflicts), s)"
  by (auto simp add: drone_conflicts_eff_def drone_conflicts_step_def truthy_ref_reads map_get_view
      eff_simps Let_def split: option.splits)

lemma overlap_check_eff_reads:
  "overlap_check_eff pd p assignment m1 m2 conflicts s =
     (overlap_check pd (heap s p) assignment (heap s m1) (heap s m2) conflicts, s)"
  by (simp add: overlap_check_eff_def overlap_check_def eff_simps split: sum.splits)

lemma overlap_eff_reads:
  "overlap_eff pd mission_map p conflicts s =
     (overlap_step pd (view s mission_map) (rows s (missions_ref s)) (heap s p) conflicts, s)"
proof -
  have loop: "for_each missions_ref (overlap_check_eff pd p assignment m1) conflicts s =
      (overlap_scan pd (heap s p) assignment (heap s m1) (rows s (missions_ref s)) conflicts, s)"
    for assignment m1
    unfolding overlap_scan_fold
    by (rule for_each_reads_list) (simp add: overlap_check_eff_reads)
  show ?thesis
    by (simp add: overlap_eff_def overlap_step_def truthy_ref_reads map_get_view loop
        eff_simps Let_def split: option.splits)
qed

lemma drone_map_eff_reads:
  "drone_map_eff d drone_by_assignment s =
     (Inr (case map_of (heap s d) ''current_assignment'' of
             None \<Rightarrow> drone_by_assignment
           | Some a \<Rightarrow> if a \<noteq> [] then drone_by_assignment(a \<mapsto> d) else drone_by_assignment), s)"
  by (simp add: drone_map_eff_def eff_simps)

lemma colocation_eff_reads:
  "colocation_eff drone_by_assignment p conflicts s =
     (Inr (colocation_step (view s drone_by_assignment) (heap s p) conflicts), s)"
  by (simp add: colocation_eff_def colocation_step_def map_get_view eff_simps Let_def
      split: option.splits)

text \<open>
  The detector on a store returns the store it was given, and the value that
  \<open>detect_conflicts\<close> computes from the records the three lists refer to.
\<close>

lemma detect_conflicts_eff_reads:
  "detect_conflicts_eff pd s =
     (detect_conflicts pd (rows s (pilots_ref s)) (rows s (drones_ref s)) (rows s (missions_ref s)), s)"
proof -
  let ?ps = "rows s (pilots_ref s)"
  let ?ds = "rows s (drones_ref s)"
  let ?ms = "rows s (missions_ref s)"
  have p1: "for_each pilots_ref (\<lambda>p c. go_on (pilot_conflicts_eff mm p c)) c s =
      (Inr (pilot_conflicts_loop (view s mm) ?ps c), s)" for mm c
    unfolding pilot_conflicts_loop_fold
    by (rule for_each_reads_list) (simp add: go_on_def bind_eff_def ret_def pilot_conflicts_eff_reads)
  have p2: "for_each drones_ref (\<lambda>d c. go_on (drone_conflicts_eff mm d c)) c s =
      (Inr (drone_conflicts_loop (view s mm) ?ds c), s)" for mm c
    unfolding drone_conflicts_loop_fold
    by (rule for_each_reads_list) (simp add: go_on_def bind_eff_def ret_def drone_conflicts_eff_reads)
  have p3: "for_each pilots_ref (\<lambda>p c. go_on (overlap_eff pd mm p c)) c s =
      (overlap_loop pd (view s mm) ?ms ?ps c, s)" for mm c
    unfolding overlap_loop_fold
    by (rule for_each_reads_list)
      (simp add: go_on_def bind_eff_def ret_def overlap_eff_reads split: sum.splits)
  have p4: "for_each pilots_ref (\<lambda>p c. go_on (colocation_eff dba p c)) c s =
      (Inr (colocation_loop (view s dba) ?ps c), s)" for dba c
    unfolding colocation_loop_fold
    by (rule for_each_reads_list) (simp add: go_on_def bind_eff_def ret_def colocation_eff_reads)
  have "snd (for_each missions_ref (\<lambda>m mm. go_on (mission_map_eff m mm)) Map.empty s) = s \<and>
      map_sum id (view s) (fst (for_each missions_ref (\<lambda>m mm. go_on (mission_map_eff m mm)) Map.empty s)) =
        fold_rows (\<lambda>m mm. case index m ''project_id'' of Inl e \<Rightarrow> Inl e | Inr k \<Rightarrow> Inr (mm(k \<mapsto> m), False))
          ?ms (view s Map.empty)"
    by (rule for_each_reads)
      (simp_all add: go_on_def bind_eff_def ret_def mission_map_eff_reads view_upd
        split: sum.splits)
  then obtain r where
    m1: "for_each missions_ref (\<lambda>m mm. go_on (mission_map_eff m mm)) Map.empty s = (r, s)" and
    m2: "map_sum id (view s) r = build_mission_map ?ms Map.empty"
    by (cases "for_each missions_ref (\<lambda>m mm. go_on (mission_map_eff m mm)) Map.empty s")
      (simp add: build_mission_map_fold view_empty)
  have "snd (for_each drones_ref (\<lambda>d m. go_on (drone_map_eff d m)) Map.empty s) = s \<and>
      map_sum id (view s) (fst (for_each drones_ref (\<lambda>d m. go_on (drone_map_eff d m)) Map.empty s)) =
        fold_rows (\<lambda>d m. Inr (case map_of d ''current_assignment'' of
                                 None \<Rightarrow> m
                               | Some a \<Rightarrow> if a \<noteq> [] then m(a \<mapsto> d) else m, False))
          ?ds (view s Map.empty)"
    by (rule for_each_reads)
      (simp_all add: go_on_def bind_eff_def ret_def drone_map_eff_reads view_upd
        split: option.splits)
  then obtain q where
    d1: "for_each drones_ref (\<lambda>d m. go_on (drone_map_eff d m)) Map.empty s = (q, s)" and
    d2: "map_sum id (view s) q = Inr (build_drone_by_assignment ?ds Map.empty)"
    by (cases "for_each drones_ref (\<lambda>d m. go_on (drone_map_eff d m)) Map.empty s")
      (simp add: build_drone_by_assignment_fold view_empty)
  from d2 obtain dba where
    q: "q = Inr dba" and dba: "view s dba = build_drone_by_assignment ?ds Map.empty"
    by (cases q) simp_all
  show ?thesis
  proof (cases r)
    case (Inl e)
    with m2 have "build_mission_map ?ms Map.empty = Inl e"
      by (simp add: detect_conflicts_def demo_pilots_def demo_drones_apart_def demo_missions_def
        pilot_conflicts_step_def drone_conflicts_step_def overlap_step_def colocation_step_def
        map_get_def is_empty_assignment_def en_dash_def bad_en_dash_def required_capability_def
        SKILL_TO_CAPABILITY_def overlaps_def date_def iso_date_def digit_def days_in_month_def
        string_simps Let_def)
    with m1 Inl show ?thesis
      by (simp add: detect_conflicts_eff_def detect_conflicts_def bind_eff_def)
  next
    case (Inr mm)
    with m2 have "build_mission_map ?ms Map.empty = Inr (view s mm)"
      by (simp add: detect_conflicts_def demo_pilots_def demo_drones_apart_def demo_missions_def
        pilot_conflicts_step_def drone_conflicts_step_def overlap_step_def colocation_step_def
        map_get_def is_empty_assignment_def en_dash_def bad_en_dash_def required_capability_def
        SKILL_TO_CAPABILITY_def overlaps_def date_def iso_date_def digit_def days_in_month_def
        string_simps Let_def)
    with m1 Inr d1 q dba show ?thesis
      by (simp add: detect_conflicts_eff_def detect_conflicts_def bind_eff_def p1 p2 p3 p4 Let_def
          split: sum.splits)
  qed
qed

text \<open>
  An assignment to a key of a record, which the body of \<open>detect_conflicts\<close> does not
  contain, is seen in the store.
\<close>

lemma dict_set_writes:
  "map_of (heap s a) k \<noteq> Some v \<Longrightarrow> snd (dict_set a k v s) \<noteq> s"
proof
  assume new: "map_of (heap s a) k \<noteq> Some v" and same: "snd (dict_set a k v s) = s"
  from same have "heap (snd (dict_set a k v s)) a = heap s a"
    by (simp add: detect_conflicts_def demo_pilots_def demo_drones_apart_def demo_missions_def
        pilot_conflicts_step_def drone_conflicts_step_def overlap_step_def colocation_step_def
        map_get_def is_empty_assignment_def en_dash_def bad_en_dash_def required_capability_def
        SKILL_TO_CAPABILITY_def overlaps_def date_def iso_date_def digit_def days_in_month_def
        string_simps Let_def)
  then have "(k, v) # filter (\<lambda>kv. fst kv \<noteq> k) (heap s a) = heap s a"
    by (simp add: dict_set_def)
  then have "map_of (heap s a) k = map_of ((k, v) # filter (\<lambda>kv. fst kv \<noteq> k) (heap s a)) k"
    by (simp add: detect_conflicts_def demo_pilots_def demo_drones_apart_def demo_missions_def
        pilot_conflicts_step_def drone_conflicts_step_def overlap_step_def colocation_step_def
        map_get_def is_empty_assignment_def en_dash_def bad_en_dash_def required_capability_def
        SKILL_TO_CAPABILITY_def overlaps_def date_def iso_date_def digit_def days_in_month_def
        string_simps Let_def)
  with new show False
    by (simp add: detect_conflicts_def demo_pilots_def demo_drones_apart_def demo_missions_def
        pilot_conflicts_step_def drone_conflicts_step_def overlap_step_def colocation_step_def
        map_get_def is_empty_assignment_def en_dash_def bad_en_dash_def required_capability_def
        SKILL_TO_CAPABILITY_def overlaps_def date_def iso_date_def digit_def days_in_month_def
        string_simps Let_def)
qed

lemma demo_store_rows:
  "rows demo_store (pilots_ref demo_store) = demo_pilots"
  "rows demo_store (drones_ref demo_store) = demo_drones_apart"
  "rows demo_store (missions_ref demo_store) = demo_missions"
  by (simp_all add: rows_def demo_store_def demo_pilots_def demo_drones_apart_def demo_missions_def)

lemma demo_conflicts_apart:
  "detect_conflicts iso_date demo_pilots demo_drones_apart demo_missions =
     Inr [''Pilot Neha location mismatch for PRJ003.'',
          ''Drone D001 is in maintenance but assigned to PRJ002.'',
          ''Drone D001 location mismatch for PRJ002.'',
          ''Drone D001 lacks capability for PRJ002.'',
          ''Drone D002 assigned to unknown mission PRJ404.'',
          ''Pilot Arjun assigned to PRJ002 overlaps with PRJ001.'',
          ''Pilot Neha assigned to PRJ003 overlaps with PRJ002.'',
          ''Pilot Arjun and drone D001 are in different locations for PRJ002.'']"
  by (simp add: detect_conflicts_def demo_pilots_def demo_drones_apart_def demo_missions_def
        pilot_conflicts_step_def drone_conflicts_step_def overlap_step_def colocation_step_def
        map_get_def is_empty_assignment_def en_dash_def bad_en_dash_def required_capability_def
        SKILL_TO_CAPABILITY_def overlaps_def date_def iso_date_def digit_def days_in_month_def
        string_simps Let_def)

text \<open>
  C5.  \<open>detect_conflicts\<close>, run on a store that holds the three lists and their records,
  leaves the store as it was: no list and no record has changed.  A second run on the
  store that the first one left gives the same output, which is the value computed from
  the records the lists refer to.  When the function returns a list, the list is the
  pilot conflicts, then the drone conflicts, then the overlap conflicts, then the
  colocation conflicts, each phase being the lines of the pilots (or drones) one after
  the other in listing order.
\<close>

theorem detect_conflicts_pure_ordered:
  "snd (detect_conflicts_eff pd s) = s \<and>
   fst (detect_conflicts_eff pd (snd (detect_conflicts_eff pd s))) = fst (detect_conflicts_eff pd s) \<and>
   fst (detect_conflicts_eff pd s) =
     detect_conflicts pd (rows s (pilots_ref s)) (rows s (drones_ref s)) (rows s (missions_ref s)) \<and>
   (\<forall>out. detect_conflicts pd pilots drones missions = Inr out \<longrightarrow>
      (\<exists>mission_map overlap_lines.
         build_mission_map missions Map.empty = Inr mission_map \<and>
         map (\<lambda>p. overlap_step pd mission_map missions p []) pilots = map Inr overlap_lines \<and>
         out =
           concat (map (\<lambda>p. pilot_conflicts_step mission_map p []) pilots) @
           concat (map (\<lambda>d. drone_conflicts_step mission_map d []) drones) @
           concat overlap_lines @
           concat (map (\<lambda>p. colocation_step (build_drone_by_assignment drones Map.empty) p [])
                     pilots)))"
proof (intro conjI allI impI)
  show "snd (detect_conflicts_eff pd s) = s"
    by (simp add: detect_conflicts_eff_reads)
  show "fst (detect_conflicts_eff pd (snd (detect_conflicts_eff pd s))) =
      fst (detect_conflicts_eff pd s)"
    by (simp add: detect_conflicts_eff_reads)
  show "fst (detect_conflicts_eff pd s) =
      detect_conflicts pd (rows s (pilots_ref s)) (rows s (drones_ref s)) (rows s (missions_ref s))"
    by (simp add: detect_conflicts_eff_reads)
next
  fix out
  assume run: "detect_conflicts pd pilots drones missions = Inr out"
  then obtain mm c3 where
    mm: "build_mission_map missions Map.empty = Inr mm"
    and ov: "overlap_loop pd mm missions pilots
               (drone_conflicts_loop mm drones (pilot_conflicts_loop mm pilots [])) = Inr c3"
    and out: "out = colocation_loop (build_drone_by_assignment drones Map.empty) pilots c3"
    by (auto simp add: detect_conflicts_def Let_def split: sum.splits)
  from overlap_loop_concat [OF ov] obtain parts where
    parts: "map (\<lambda>p. overlap_step pd mm missions p []) pilots = map Inr parts"
      "c3 = drone_conflicts_loop mm drones (pilot_conflicts_loop mm pilots []) @ concat parts"
    by blast
  have "out =
      concat (map (\<lambda>p. pilot_conflicts_step mm p []) pilots) @
      concat (map (\<lambda>d. drone_conflicts_step mm d []) drones) @
      concat parts @
      concat (map (\<lambda>p. colocation_step (build_drone_by_assignment drones Map.empty) p []) pilots)"
    unfolding out parts(2)
    by (subst colocation_loop_concat, subst drone_conflicts_loop_concat,
        subst pilot_conflicts_loop_concat, simp)
  with mm parts(1) show "\<exists>mission_map overlap_lines.
         build_mission_map missions Map.empty = Inr mission_map \<and>
         map (\<lambda>p. overlap_step pd mission_map missions p []) pilots = map Inr overlap_lines \<and>
         out =
           concat (map (\<lambda>p. pilot_conflicts_step mission_map p []) pilots) @
           concat (map (\<lambda>d. drone_conflicts_step mission_map d []) drones) @
           concat overlap_lines @
           concat (map (\<lambda>p. colocation_step (build_drone_by_assignment drones Map.empty) p [])
                     pilots)"
    by blast
qed

theorem detect_conflicts_pure_ordered_witness:
  "snd (detect_conflicts_eff iso_date demo_store) = demo_store \<and>
   fst (detect_conflicts_eff iso_date (snd (detect_conflicts_eff iso_date demo_store))) =
     fst (detect_conflicts_eff iso_date demo_store) \<and>
   fst (detect_conflicts_eff iso_date demo_store) =
     Inr [''Pilot Neha location mismatch for PRJ003.'',
          ''Drone D001 is in maintenance but assigned to PRJ002.'',
          ''Drone D001 location mismatch for PRJ002.'',
          ''Drone D001 lacks capability for PRJ002.'',
          ''Drone D002 assigned to unknown mission PRJ404.'',
          ''Pilot Arjun assigned to PRJ002 overlaps with PRJ001.'',
          ''Pilot Neha assigned to PRJ003 overlaps with PRJ002.'',
          ''Pilot Arjun and drone D001 are in different locations for PRJ002.''] \<and>
   (\<exists>mission_map overlap_lines.
      build_mission_map demo_missions Map.empty = Inr mission_map \<and>
      map (\<lambda>p. overlap_step iso_date mission_map demo_missions p []) demo_pilots =
        map Inr overlap_lines \<and>
      [''Pilot Neha location mismatch for PRJ003.'',
       ''Drone D001 is in maintenance but assigned to PRJ002.'',
       ''Drone D001 location mismatch for PRJ002.'',
       ''Drone D001 lacks capability for PRJ002.'',
       ''Drone D002 assigned to unknown mission PRJ404.'',
       ''Pilot Arjun assigned to PRJ002 overlaps with PRJ001.'',
       ''Pilot Neha assigned to PRJ003 overlaps with PRJ002.'',
       ''Pilot Arjun and drone D001 are in different locations for PRJ002.''] =
        concat (map (\<lambda>p. pilot_conflicts_step mission_map p []) demo_pilots) @
        concat (map (\<lambda>d. drone_conflicts_step mission_map d []) demo_drones_apart) @
        concat overlap_lines @
        concat (map (\<lambda>p. colocation_step (build_drone_by_assignment demo_drones_apart Map.empty) p [])
                  demo_pilots))"
proof -
  note inst = detect_conflicts_pure_ordered
    [of iso_date demo_store demo_pilots demo_drones_apart demo_missions]
  from inst have "snd (detect_conflicts_eff iso_date demo_store) = demo_store"
    by blast
  moreover from inst
  have "fst (detect_conflicts_eff iso_date (snd (detect_conflicts_eff iso_date demo_store))) =
      fst (detect_conflicts_eff iso_date demo_store)"
    by blast
  moreover from inst have "fst (detect_conflicts_eff iso_date demo_store) =
      detect_conflicts iso_date demo_pilots demo_drones_apart demo_missions"
    by (simp only: demo_store_rows)
  moreover from inst demo_conflicts_apart
  have "\<exists>mission_map overlap_lines.
      build_mission_map demo_missions Map.empty = Inr mission_map \<and>
      map (\<lambda>p. overlap_step iso_date mission_map demo_missions p []) demo_pilots =
        map Inr overlap_lines \<and>
      [''Pilot Neha location mismatch for PRJ003.'',
       ''Drone D001 is in maintenance but assigned to PRJ002.'',
       ''Drone D001 location mismatch for PRJ002.'',
       ''Drone D001 lacks capability for PRJ002.'',
       ''Drone D002 assigned to unknown mission PRJ404.'',
       ''Pilot Arjun assigned to PRJ002 overlaps with PRJ001.'',
       ''Pilot Neha assigned to PRJ003 overlaps with PRJ002.'',
       ''Pilot Arjun and drone D001 are in different locations for PRJ002.''] =
        concat (map (\<lambda>p. pilot_conflicts_step mission_map p []) demo_pilots) @
        concat (map (\<lambda>d. drone_conflicts_step mission_map d []) demo_drones_apart) @
        concat overlap_lines @
        concat (map (\<lambda>p. colocation_step (build_drone_by_assignment demo_drones_apart Map.empty) p [])
                  demo_pilots)"
    by blast
  ultimately show ?thesis
    by (simp only: demo_conflicts_apart simp_thms)
qed

text \<open>
  C3.  A missing field is not always read as the empty string.  \<open>detect_conflicts\<close> on a
  mission without \<open>project_id\<close> raises \<open>KeyError\<close>, whatever the pilots and drones, and
  \<open>recommend_assignment\<close> raises \<open>KeyError\<close> when an otherwise eligible pilot is
  assigned to a mission without \<open>start_date\<close>.
\<close>

theorem missing_field_raises:
  "detect_conflicts pd [] [] [[(''location'', ''Mumbai'')]] = Inl (KeyError ''project_id'') \<and>
   recommend_assignment pd ''PRJ001''
     [[(''name'', ''Arjun''), (''skills'', ''Mapping''), (''certifications'', ''DGCA''),
       (''location'', ''Mumbai''), (''status'', ''Available''), (''current_assignment'', ''PRJ001'')]]
     []
     [[(''project_id'', ''PRJ001''), (''location'', ''Mumbai''), (''required_skills'', ''Mapping''),
       (''required_certs'', ''DGCA'')]] = Inl (KeyError ''start_date'')"
  by (simp add: detect_conflicts_def recommend_assignment_def recommend_found_def pilot_step_def
        is_empty_assignment_def en_dash_def bad_en_dash_def string_simps Let_def)

lemma unassigned_iff: "unassigned r = is_empty_assignment (map_of r ''current_assignment'')"
  by (simp add: unassigned_def is_empty_assignment_def split: option.splits)

lemma empty_string_is_empty: "is_empty_assignment (Some [])"
  by (simp add: is_empty_assignment_def strip_def)

lemma pilot_conflicts_step_unassigned: "unassigned p \<Longrightarrow> pilot_conflicts_step mm p acc = acc"
  by (simp add: pilot_conflicts_step_def unassigned_iff)

lemma drone_conflicts_step_unassigned: "unassigned d \<Longrightarrow> drone_conflicts_step mm d acc = acc"
  by (simp add: drone_conflicts_step_def unassigned_iff)

lemma overlap_step_unassigned: "unassigned p \<Longrightarrow> overlap_step pd mm missions p acc = Inr acc"
  by (simp add: overlap_step_def unassigned_iff)

lemma colocation_step_unassigned: "unassigned p \<Longrightarrow> colocation_step dba p acc = acc"
  by (simp add: colocation_step_def unassigned_iff)

lemma pilot_conflicts_loop_assigned:
  "pilot_conflicts_loop mm (filter (\<lambda>p. \<not> unassigned p) ps) acc = pilot_conflicts_loop mm ps acc"
  by (induction ps arbitrary: acc) (simp_all add: pilot_conflicts_step_unassigned)

lemma drone_conflicts_loop_assigned:
  "drone_conflicts_loop mm (filter (\<lambda>d. \<not> unassigned d) ds) acc = drone_conflicts_loop mm ds acc"
  by (induction ds arbitrary: acc) (simp_all add: drone_conflicts_step_unassigned)

lemma overlap_loop_assigned:
  "overlap_loop pd mm missions (filter (\<lambda>p. \<not> unassigned p) ps) acc =
     overlap_loop pd mm missions ps acc"
  by (induction ps arbitrary: acc) (auto simp add: overlap_step_unassigned split: sum.splits)

lemma colocation_step_agree:
  assumes "\<forall>a. \<not> is_empty_assignment (Some a) \<longrightarrow> dba a = dba' a"
  shows "colocation_step dba p acc = colocation_step dba' p acc"
proof (cases "is_empty_assignment (map_of p ''current_assignment'')")
  case True
  then show ?thesis by (simp add: colocation_step_def)
next
  case False
  then obtain a where a: "map_of p ''current_assignment'' = Some a"
    by (cases "map_of p ''current_assignment''") (simp_all add: is_empty_assignment_def)
  with False assms have "dba a = dba' a" by simp
  with a show ?thesis by (simp add: colocation_step_def map_get_def Let_def)
qed

lemma colocation_loop_assigned:
  assumes "\<forall>a. \<not> is_empty_assignment (Some a) \<longrightarrow> dba a = dba' a"
  shows "colocation_loop dba (filter (\<lambda>p. \<not> unassigned p) ps) acc = colocation_loop dba' ps acc"
proof (induction ps arbitrary: acc)
  case Nil
  then show ?case by simp
next
  case (Cons p ps)
  show ?case
  proof (cases "unassigned p")
    case True
    then show ?thesis by (simp add: Cons.IH colocation_step_unassigned)
  next
    case False
    then show ?thesis by (simp add: Cons.IH colocation_step_agree [OF assms])
  qed
qed

lemma build_drone_by_assignment_assigned:
  assumes "\<forall>a. \<not> is_empty_assignment (Some a) \<longrightarrow> m a = m' a"
  shows "\<forall>a. \<not> is_empty_assignment (Some a) \<longrightarrow>
           build_drone_by_assignment (filter (\<lambda>d. \<not> unassigned d) ds) m a =
           build_drone_by_assignment ds m' a"
  using assms
proof (induction ds arbitrary: m m')
  case Nil
  then show ?case by simp
next
  case (Cons d ds)
  show ?case
  proof (cases "map_of d ''current_assignment''")
    case None
    then have "unassigned d" by (simp add: unassigned_def)
    with None Cons.IH [OF Cons.prems] show ?thesis by simp
  next
    case (Some s)
    show ?thesis
    proof (cases "unassigned d")
      case True
      then have l: "filter (\<lambda>d. \<not> unassigned d) (d # ds) = filter (\<lambda>d. \<not> unassigned d) ds"
        by simp
      from True Some have e: "is_empty_assignment (Some s)" by (simp add: unassigned_iff)
      show ?thesis
      proof (cases "s = []")
        case True
        with Some have r: "build_drone_by_assignment (d # ds) m' = build_drone_by_assignment ds m'"
          by simp
        show ?thesis unfolding l r by (rule Cons.IH [OF Cons.prems])
      next
        case False
        with Some have r: "build_drone_by_assignment (d # ds) m' =
            build_drone_by_assignment ds (m'(s \<mapsto> d))"
          by simp
        from e Cons.prems have "\<forall>a. \<not> is_empty_assignment (Some a) \<longrightarrow> m a = (m'(s \<mapsto> d)) a"
          by auto
        from Cons.IH [OF this] show ?thesis unfolding l r .
      qed
    next
      case False
      with Some have "\<not> is_empty_assignment (Some s)" by (simp add: unassigned_iff)
      then have ne: "s \<noteq> []" using empty_string_is_empty by auto
      from False have l: "filter (\<lambda>d. \<not> unassigned d) (d # ds) = d # filter (\<lambda>d. \<not> unassigned d) ds"
        by simp
      from Some ne have r: "build_drone_by_assignment (d # xs) mp =
          build_drone_by_assignment xs (mp(s \<mapsto> d))" for xs mp
        by simp
      from Cons.prems have "\<forall>a. \<not> is_empty_assignment (Some a) \<longrightarrow> (m(s \<mapsto> d)) a = (m'(s \<mapsto> d)) a"
        by simp
      from Cons.IH [OF this] show ?thesis unfolding l r .
    qed
  qed
qed

lemma detect_conflicts_assigned:
  "detect_conflicts pd pilots drones missions =
     detect_conflicts pd (filter (\<lambda>p. \<not> unassigned p) pilots)
       (filter (\<lambda>d. \<not> unassigned d) drones) missions"
proof -
  have agree: "\<forall>a. \<not> is_empty_assignment (Some a) \<longrightarrow>
      build_drone_by_assignment (filter (\<lambda>d. \<not> unassigned d) drones) Map.empty a =
      build_drone_by_assignment drones Map.empty a"
    by (rule build_drone_by_assignment_assigned) simp
  show ?thesis
    by (simp add: detect_conflicts_def pilot_conflicts_loop_assigned drone_conflicts_loop_assigned
          overlap_loop_assigned colocation_loop_assigned [OF agree] cong: sum.case_cong)
qed


text \<open>
  C8.  Pilots and drones whose \<open>current_assignment\<close> is one of the empty spellings add
  nothing to the output of \<open>detect_conflicts\<close>: the output is that of the call without
  them, and each of the four phases adds no line for such an entity.  In
  \<open>recommend_assignment\<close> such a pilot has no temporal conflict: the pilot step
  decides on status, location, skill and certificate alone.
\<close>

theorem unassigned_sentinels_ignored:
  "detect_conflicts pd pilots drones missions =
     detect_conflicts pd (filter (\<lambda>p. \<not> unassigned p) pilots)
       (filter (\<lambda>d. \<not> unassigned d) drones) missions \<and>
   (\<forall>r. unassigned r \<longrightarrow>
      pilot_conflicts_step mission_map r [] = [] \<and>
      drone_conflicts_step mission_map r [] = [] \<and>
      overlap_step pd mission_map missions r [] = Inr [] \<and>
      colocation_step drone_by_assignment r [] = [] \<and>
      \<not> temporal_conflict pd missions mission r \<and>
      pilot_step pd missions required_skill required_cert location start end r =
        Inr (normalize_text (get_or r ''status'' '''') = ''available'' \<and>
             normalize_text (get_or r ''location'' '''') = normalize_text location \<and>
             normalize_text required_skill \<in> set (map lower (split_list (get_or r ''skills'' ''''))) \<and>
             normalize_text required_cert
               \<in> set (map lower (split_list (get_or r ''certifications'' '''')))))"
proof (intro conjI allI impI)
  show "detect_conflicts pd pilots drones missions =
     detect_conflicts pd (filter (\<lambda>p. \<not> unassigned p) pilots)
       (filter (\<lambda>d. \<not> unassigned d) drones) missions"
    by (rule detect_conflicts_assigned)
next
  fix r
  assume u: "unassigned r"
  then show "pilot_conflicts_step mission_map r [] = []"
    by (rule pilot_conflicts_step_unassigned)
  from u show "drone_conflicts_step mission_map r [] = []"
    by (rule drone_conflicts_step_unassigned)
  from u show "overlap_step pd mission_map missions r [] = Inr []"
    by (rule overlap_step_unassigned)
  from u show "colocation_step drone_by_assignment r [] = []"
    by (rule colocation_step_unassigned)
  from u show "\<not> temporal_conflict pd missions mission r"
    by (simp add: temporal_conflict_def unassigned_iff)
  from u show "pilot_step pd missions required_skill required_cert location start end r =
        Inr (normalize_text (get_or r ''status'' '''') = ''available'' \<and>
             normalize_text (get_or r ''location'' '''') = normalize_text location \<and>
             normalize_text required_skill \<in> set (map lower (split_list (get_or r ''skills'' ''''))) \<and>
             normalize_text required_cert
               \<in> set (map lower (split_list (get_or r ''certifications'' ''''))))"
    by (simp add: pilot_step_def unassigned_iff)
qed

lemma demo_unassigned:
  "unassigned (demo_pilots ! 2)"
  "unassigned [(''drone_id'', ''D009''), (''current_assignment'', CHR '' '' # en_dash)]"
  "unassigned [(''pilot_id'', ''P009''), (''current_assignment'', bad_en_dash @ '' '')]"
  "unassigned [(''pilot_id'', ''P010'')]"
  "filter (\<lambda>p. \<not> unassigned p) demo_pilots = take 2 demo_pilots"
  "filter (\<lambda>d. \<not> unassigned d) demo_drones = take 1 demo_drones"
  by (simp_all add: unassigned_def demo_pilots_def demo_drones_def strip_def isspace_def
        en_dash_def bad_en_dash_def)

theorem unassigned_sentinels_ignored_witness:
  "unassigned (demo_pilots ! 2) \<and>
   unassigned [(''drone_id'', ''D009''), (''current_assignment'', CHR '' '' # en_dash)] \<and>
   unassigned [(''pilot_id'', ''P009''), (''current_assignment'', bad_en_dash @ '' '')] \<and>
   detect_conflicts iso_date demo_pilots demo_drones demo_missions =
     detect_conflicts iso_date (take 2 demo_pilots) (take 1 demo_drones) demo_missions \<and>
   pilot_conflicts_step Map.empty (demo_pilots ! 2) [] = [] \<and>
   pilot_step iso_date demo_missions ''Mapping'' ''DGCA'' ''Mumbai'' ''2024-01-01'' ''2024-01-10''
     (demo_pilots ! 2) = Inr True"
proof -
  note t = unassigned_sentinels_ignored [where pd = iso_date and pilots = demo_pilots
      and drones = demo_drones and missions = demo_missions and mission_map = Map.empty
      and required_skill = "''Mapping''" and required_cert = "''DGCA''"
      and location = "''Mumbai''" and start = "''2024-01-01''" and ?end = "''2024-01-10''"]
  from t have d: "detect_conflicts iso_date demo_pilots demo_drones demo_missions =
     detect_conflicts iso_date (take 2 demo_pilots) (take 1 demo_drones) demo_missions"
    by (simp add: demo_unassigned)
  from t demo_unassigned(1) have s: "pilot_conflicts_step Map.empty (demo_pilots ! 2) [] = []"
    by blast
  from t demo_unassigned(1)
  have "pilot_step iso_date demo_missions ''Mapping'' ''DGCA'' ''Mumbai'' ''2024-01-01'' ''2024-01-10''
     (demo_pilots ! 2) =
     Inr (normalize_text (get_or (demo_pilots ! 2) ''status'' '''') = ''available'' \<and>
          normalize_text (get_or (demo_pilots ! 2) ''location'' '''') = normalize_text ''Mumbai'' \<and>
          normalize_text ''Mapping''
            \<in> set (map lower (split_list (get_or (demo_pilots ! 2) ''skills'' ''''))) \<and>
          normalize_text ''DGCA''
            \<in> set (map lower (split_list (get_or (demo_pilots ! 2) ''certifications'' ''''))))"
    by blast
  then have "pilot_step iso_date demo_missions ''Mapping'' ''DGCA'' ''Mumbai'' ''2024-01-01''
      ''2024-01-10'' (demo_pilots ! 2) = Inr True"
    by (simp add: demo_pilots_def string_simps)
  with d s demo_unassigned show ?thesis by simp
qed

subsection \<open>Urgent reassignment planner\<close>

lemma find_append_option:
  "find P (xs @ ys) = (case find P xs of None \<Rightarrow> find P ys | Some x \<Rightarrow> Some x)"
  by (induction xs) simp_all

lemma find_map_Pair:
  "find P (map (Pair a) ys) = map_option (Pair a) (find (\<lambda>y. P (a, y)) ys)"
  by (induction ys) simp_all

lemma candidate_scan_find:
  "candidate_scan lm ps c = Inr r \<Longrightarrow>
   r = (case find (\<lambda>p. map_of lm ''project_id'' \<noteq> None \<and>
                        map_of p ''current_assignment'' = map_of lm ''project_id'') ps of
          None \<Rightarrow> c
        | Some p \<Rightarrow> Some p)"
  by (induction ps) (auto simp add: index_def split: option.splits if_splits)

lemma found_truthy:
  "find (\<lambda>p. map_of lm ''project_id'' \<noteq> None \<and>
             map_of p ''current_assignment'' = map_of lm ''project_id'') ps = Some p
   \<Longrightarrow> \<not> falsy (Some p)"
  by (auto simp add: falsy_def dest!: find_in_set)

lemma candidate_loop_find:
  "candidate_loop lms ps c = Inr r \<Longrightarrow> falsy c \<Longrightarrow>
   r = (case find (\<lambda>(lm, p). map_of lm ''project_id'' \<noteq> None \<and>
                         map_of p ''current_assignment'' = map_of lm ''project_id'')
               (List.product lms ps) of
          None \<Rightarrow> c
        | Some (lm, p) \<Rightarrow> Some p)"
proof (induction lms arbitrary: c)
  case Nil
  then show ?case by simp
next
  case (Cons lm lms)
  from Cons.prems(1) obtain c' where
    scan: "candidate_scan lm ps c = Inr c'"
    and rest: "if \<not> falsy c' then r = c' else candidate_loop lms ps c' = Inr r"
    by (auto split: sum.splits if_splits)
  note c' = candidate_scan_find [OF scan]
  show ?case
  proof (cases "find (\<lambda>p. map_of lm ''project_id'' \<noteq> None \<and>
                        map_of p ''current_assignment'' = map_of lm ''project_id'') ps")
    case None
    with c' have "c' = c" by simp
    with rest Cons.prems(2) have "candidate_loop lms ps c = Inr r" by simp
    from Cons.IH [OF this Cons.prems(2)] None show ?thesis
      by (simp add: find_append_option find_map_Pair)
  next
    case (Some p)
    with c' have "c' = Some p" by simp
    moreover from found_truthy [OF Some] have "\<not> falsy (Some p)" .
    ultimately have "r = Some p" using rest by simp
    with Some show ?thesis
      by (simp add: find_append_option find_map_Pair)
  qed
qed

lemma candidate_loop_first_reassignable:
  "candidate_loop (filter (has_priority [''standard'', ''low'']) missions) pilots None = Inr c
   \<Longrightarrow> c = first_reassignable missions pilots"
  by (drule candidate_loop_find)
     (auto simp add: falsy_def first_reassignable_def split: option.splits)


lemma normalize_text_empty: "normalize_text [] = []"
  by (simp add: normalize_text_def strip_def lower_def)

lemma recommended_truthy:
  assumes "recommend_assignment pd pid pilots drones missions = Inr r"
  shows "falsy (pilot r) = (pilot r = None)" and "falsy (drone r) = (drone r = None)"
proof -
  have "(\<forall>p. pilot r = Some p \<longrightarrow> p \<noteq> []) \<and> (\<forall>d. drone r = Some d \<longrightarrow> d \<noteq> [])"
  proof (cases "find (\<lambda>m. map_of m ''project_id'' = Some pid) missions")
    case None
    with assms show ?thesis
      by (auto simp add: recommend_assignment_def unknown_project_def)
  next
    case (Some mission)
    with assms have f: "recommend_found pd mission pilots drones missions = Inr r"
      by (simp add: recommend_assignment_found)
    have "p \<noteq> []" if "pilot r = Some p" for p
    proof -
      from that recommend_found_result(1) [OF f]
      have "eligible pd missions mission p" by (auto dest: find_in_set)
      then show ?thesis
        by (auto simp add: eligible_def get_or_def normalize_text_empty)
    qed
    moreover have "d \<noteq> []" if "drone r = Some d" for d
    proof -
      from that recommend_found_result(2) [OF f]
      have "is_available d" by (auto simp add: drone_matches_def dest: find_in_set)
      then show ?thesis
        by (auto simp add: is_available_def get_or_def normalize_text_empty)
    qed
    ultimately show ?thesis by blast
  qed
  then show "falsy (pilot r) = (pilot r = None)" and "falsy (drone r) = (drone r = None)"
    by (auto simp add: falsy_def split: option.splits)
qed

lemma first_reassignable_nonempty: "first_reassignable missions pilots = Some c \<Longrightarrow> c \<noteq> []"
  by (auto simp add: first_reassignable_def dest!: find_in_set)

lemma plan_loop_lines:
  "plan_loop pd missions pilots drones us acc = Inr out \<Longrightarrow>
   out = acc @ map (plan_line (first_reassignable missions pilots))
                 (filter (\<lambda>m. \<not> coverable pd missions pilots drones m) us)"
proof (induction us arbitrary: acc)
  case Nil
  then show ?case by simp
next
  case (Cons m us)
  from Cons.prems obtain pid r where
    pid: "index m ''project_id'' = Inr pid"
    and r: "recommend_assignment pd pid pilots drones missions = Inr r"
    by (auto split: sum.splits)
  from pid have g: "get_or m ''project_id'' '''' = pid"
    by (auto simp add: index_def get_or_def split: option.splits)
  have cov: "coverable pd missions pilots drones m =
      (\<not> falsy (pilot r) \<and> \<not> falsy (drone r) \<and> issues r = [])"
    by (simp add: coverable_def g r recommended_truthy [OF r])
  show ?case
  proof (cases "coverable pd missions pilots drones m")
    case True
    with cov pid r Cons.prems have "plan_loop pd missions pilots drones us acc = Inr out"
      by simp
    from Cons.IH [OF this] True show ?thesis by simp
  next
    case False
    with cov pid r Cons.prems obtain c where
      c: "candidate_loop (filter (has_priority [''standard'', ''low'']) missions) pilots None = Inr c"
      and rest: "plan_loop pd missions pilots drones us
          (acc @ [case c of
                    None \<Rightarrow> ''No reassignable pilots found for urgent mission '' @ pid @ ''.''
                  | Some c \<Rightarrow>
                      if c = [] then ''No reassignable pilots found for urgent mission '' @ pid @ ''.''
                      else ''Consider reassigning pilot '' @ fmt (map_of c ''name'') @ '' from ''
                             @ fmt (map_of c ''current_assignment'') @ '' to urgent mission ''
                             @ pid @ ''.'']) = Inr out"
      by (auto split: sum.splits)
    from candidate_loop_first_reassignable [OF c]
    have c_eq: "c = first_reassignable missions pilots" .
    have line: "(case c of
                    None \<Rightarrow> ''No reassignable pilots found for urgent mission '' @ pid @ ''.''
                  | Some c \<Rightarrow>
                      if c = [] then ''No reassignable pilots found for urgent mission '' @ pid @ ''.''
                      else ''Consider reassigning pilot '' @ fmt (map_of c ''name'') @ '' from ''
                             @ fmt (map_of c ''current_assignment'') @ '' to urgent mission ''
                             @ pid @ ''.'') = plan_line (first_reassignable missions pilots) m"
      using first_reassignable_nonempty [of missions pilots]
      by (cases c) (simp_all add: plan_line_def g c_eq [symmetric])
    from Cons.IH [OF rest] False show ?thesis
      by (simp add: line)
  qed
qed

lemma recommend_assignment_total:
  assumes "\<forall>m \<in> set missions. dated pd m"
  shows "\<exists>r. recommend_assignment pd pid pilots drones missions = Inr r"
proof (cases "find (\<lambda>m. map_of m ''project_id'' = Some pid) missions")
  case None
  then show ?thesis by (simp add: recommend_assignment_def)
next
  case (Some mission)
  then have "mission \<in> set missions" by (auto dest: find_in_set)
  from recommend_found_total [OF assms this] show ?thesis
    by (simp add: recommend_assignment_found [OF Some])
qed

lemma candidate_scan_total:
  "map_of lm ''project_id'' \<noteq> None \<Longrightarrow> \<exists>r. candidate_scan lm ps c = Inr r"
  by (induction ps) (auto simp add: index_def)

lemma candidate_loop_total:
  "\<forall>lm \<in> set lms. map_of lm ''project_id'' \<noteq> None \<Longrightarrow> \<exists>r. candidate_loop lms ps c = Inr r"
proof (induction lms arbitrary: c)
  case Nil
  then show ?case by simp
next
  case (Cons lm lms)
  then have "map_of lm ''project_id'' \<noteq> None" by simp
  from candidate_scan_total [OF this] obtain c' where "candidate_scan lm ps c = Inr c'"
    by blast
  moreover from Cons have "\<exists>r. candidate_loop lms ps c' = Inr r" by simp
  ultimately show ?case by auto
qed

lemma plan_loop_total:
  assumes "\<forall>m \<in> set missions. dated pd m \<and> map_of m ''project_id'' \<noteq> None"
  shows "set us \<subseteq> set missions \<Longrightarrow> \<exists>out. plan_loop pd missions pilots drones us acc = Inr out"
proof (induction us arbitrary: acc)
  case Nil
  then show ?case by simp
next
  case (Cons m us)
  from Cons.prems assms obtain pid where pid: "index m ''project_id'' = Inr pid"
    by (auto simp add: index_def)
  from assms have "\<forall>m \<in> set missions. dated pd m" by simp
  from recommend_assignment_total [OF this]
  obtain r where r: "recommend_assignment pd pid pilots drones missions = Inr r" by blast
  from assms have "\<forall>lm \<in> set (filter (has_priority [''standard'', ''low'']) missions).
      map_of lm ''project_id'' \<noteq> None" by simp
  from candidate_loop_total [OF this]
  obtain c where
    c: "candidate_loop (filter (has_priority [''standard'', ''low'']) missions) pilots None = Inr c"
    by blast
  from Cons.prems have "set us \<subseteq> set missions" by simp
  from Cons.IH [OF this] pid r c show ?case by simp
qed

lemma plan_line_forms:
  "(\<exists>rest. plan_line c m = ''Consider reassigning pilot '' @ rest) \<or>
   (\<exists>rest. plan_line c m = ''No reassignable pilots found for urgent mission '' @ rest)"
  by (cases c) (simp_all add: plan_line_def)


text \<open>
  C9.  When \<open>urgent_reassignment_plan\<close> returns, it has one line for every urgent or
  high priority mission that is not coverable, in listing order.  The line proposes
  the first reassignable pilot: the first pilot found by going through the missions of
  priority standard or low in listing order and, within each, the pilots in listing
  order, whose \<open>current_assignment\<close> is that mission's project id; when there is
  none, the line says that no reassignable pilot was found for the mission.  Every line
  is the notice that there is no urgent mission, a proposal to reassign a pilot, or the
  report that no pilot was found: no line proposes a drone.  The plan returns whenever
  every mission has a project id and dates that parse.
\<close>

theorem planner_first_reassignable_pilot:
  "(\<forall>out. urgent_reassignment_plan pd missions pilots drones = Inr out \<longrightarrow>
      out =
        (if filter (has_priority [''urgent'', ''high'']) missions = []
         then [''No urgent or high-priority missions found.'']
         else map (plan_line (first_reassignable missions pilots))
                (filter (\<lambda>m. \<not> coverable pd missions pilots drones m)
                   (filter (has_priority [''urgent'', ''high'']) missions))) \<and>
      (\<forall>s \<in> set out.
         s = ''No urgent or high-priority missions found.'' \<or>
         (\<exists>rest. s = ''Consider reassigning pilot '' @ rest) \<or>
         (\<exists>rest. s = ''No reassignable pilots found for urgent mission '' @ rest))) \<and>
   (\<forall>c. candidate_loop (filter (has_priority [''standard'', ''low'']) missions) pilots None = Inr c
        \<longrightarrow> c = first_reassignable missions pilots) \<and>
   ((\<forall>m \<in> set missions. dated pd m \<and> map_of m ''project_id'' \<noteq> None) \<longrightarrow>
      (\<exists>out. urgent_reassignment_plan pd missions pilots drones = Inr out))"
proof (intro conjI allI impI)
  fix out
  assume run: "urgent_reassignment_plan pd missions pilots drones = Inr out"
  show eq: "out =
        (if filter (has_priority [''urgent'', ''high'']) missions = []
         then [''No urgent or high-priority missions found.'']
         else map (plan_line (first_reassignable missions pilots))
                (filter (\<lambda>m. \<not> coverable pd missions pilots drones m)
                   (filter (has_priority [''urgent'', ''high'']) missions)))"
  proof (cases "filter (has_priority [''urgent'', ''high'']) missions = []")
    case True
    with run show ?thesis by (simp add: urgent_reassignment_plan_def)
  next
    case False
    with run have "plan_loop pd missions pilots drones
        (filter (has_priority [''urgent'', ''high'']) missions) [] = Inr out"
      by (simp add: urgent_reassignment_plan_def)
    from plan_loop_lines [OF this] False show ?thesis by simp
  qed
  show "\<forall>s \<in> set out.
         s = ''No urgent or high-priority missions found.'' \<or>
         (\<exists>rest. s = ''Consider reassigning pilot '' @ rest) \<or>
         (\<exists>rest. s = ''No reassignable pilots found for urgent mission '' @ rest)"
  proof
    fix s
    assume "s \<in> set out"
    with eq have "s = ''No urgent or high-priority missions found.'' \<or>
        (\<exists>m. s = plan_line (first_reassignable missions pilots) m)"
      by (auto split: if_splits)
    with plan_line_forms [of "first_reassignable missions pilots"]
    show "s = ''No urgent or high-priority missions found.'' \<or>
         (\<exists>rest. s = ''Consider reassigning pilot '' @ rest) \<or>
         (\<exists>rest. s = ''No reassignable pilots found for urgent mission '' @ rest)"
      by metis
  qed
next
  fix c
  assume "candidate_loop (filter (has_priority [''standard'', ''low'']) missions) pilots None = Inr c"
  then show "c = first_reassignable missions pilots"
    by (rule candidate_loop_first_reassignable)
next
  assume wf: "\<forall>m \<in> set missions. dated pd m \<and> map_of m ''project_id'' \<noteq> None"
  have "set (filter (has_priority [''urgent'', ''high'']) missions) \<subseteq> set missions" by auto
  from plan_loop_total [OF wf this]
  show "\<exists>out. urgent_reassignment_plan pd missions pilots drones = Inr out"
    by (simp add: urgent_reassignment_plan_def Let_def)
qed

lemma demo_candidate:
  "candidate_loop (filter (has_priority [''standard'', ''low'']) demo_missions) demo_pilots None =
     Inr (Some (demo_pilots ! 0))"
  by (simp add: demo_missions_def demo_pilots_def has_priority_def falsy_def string_simps)

lemma demo_plan:
  "urgent_reassignment_plan iso_date demo_missions demo_pilots [] =
     Inr [''Consider reassigning pilot Arjun from PRJ002 to urgent mission PRJ001.'']"
proof -
  have u: "filter (has_priority [''urgent'', ''high'']) demo_missions = [hd demo_missions]"
    by (simp add: demo_missions_def has_priority_def string_simps)
  have "hd demo_missions \<in> set demo_missions" by (simp add: demo_missions_def)
  from recommend_found_total [OF demo_dated this, of demo_pilots "[]"]
  obtain r where r: "recommend_found iso_date (hd demo_missions) demo_pilots [] demo_missions = Inr r"
    by blast
  from recommend_found_result(2) [OF r] have "drone r = None" by simp
  moreover have "recommend_assignment iso_date ''PRJ001'' demo_pilots [] demo_missions = Inr r"
    by (simp add: recommend_assignment_found [OF demo_find] r)
  moreover have "index (hd demo_missions) ''project_id'' = Inr ''PRJ001''"
    by (simp add: demo_missions_def index_def)
  ultimately show ?thesis
    by (simp add: urgent_reassignment_plan_def u demo_candidate falsy_def)
       (simp add: demo_pilots_def fmt_def)
qed

theorem planner_first_reassignable_pilot_witness:
  "list_all (\<lambda>m. dated iso_date m \<and> map_of m ''project_id'' \<noteq> None) demo_missions \<and>
   urgent_reassignment_plan iso_date demo_missions demo_pilots [] =
     Inr [''Consider reassigning pilot Arjun from PRJ002 to urgent mission PRJ001.''] \<and>
   first_reassignable demo_missions demo_pilots = Some (demo_pilots ! 0)"
proof -
  have wf: "\<forall>m \<in> set demo_missions. dated iso_date m \<and> map_of m ''project_id'' \<noteq> None"
    using demo_dated by (simp add: demo_missions_def)
  note t = planner_first_reassignable_pilot [of iso_date demo_missions demo_pilots "[]"]
  from t demo_candidate have "Some (demo_pilots ! 0) = first_reassignable demo_missions demo_pilots"
    by blast
  with wf demo_plan show ?thesis
    by (simp add: list_all_iff)
qed

end
